theory Spec2Isabelle
  imports Complex_Main "HOL-Library.Sublist"
begin

section \<open>Python values and library behaviour\<close>

text \<open>
  The chat backend is Python. Values decoded from JSON are dynamically typed, so the
  embedding keeps them as a datatype: \<open>None\<close>, booleans, integers, floats (as reals; no
  property below computes with them), strings, lists and dicts (association lists whose
  keys are distinct, as \<open>json.loads\<close> produces them).
  A \<open>char\<close> stands for one code point below 256; text beyond Latin-1 is outside the model.
\<close>

datatype json =
    JNull
  | JBool bool
  | JInt int
  | JFloat real
  | JStr string
  | JArr "json list"
  | JObj "(string \<times> json) list"

text \<open>The exception classes of the code base, of the libraries it calls and of Python
  that occur below, each with the text \<open>str(e)\<close> returns.\<close>

datatype exn =
    ModelError string
  | ValidationError string
  | TransportError string
  | StreamingError string
  | ConnectError string
  | TimeoutException string
  | AttributeError string
  | TypeError string
  | ValueError string
  | McpMemoryError string
  | RecursionError string
  | RuntimeError string
  | OtherException string

fun str_exn :: "exn \<Rightarrow> string" where
  "str_exn (ModelError m) = m"
| "str_exn (ValidationError m) = m"
| "str_exn (TransportError m) = m"
| "str_exn (StreamingError m) = m"
| "str_exn (ConnectError m) = m"
| "str_exn (TimeoutException m) = m"
| "str_exn (AttributeError m) = m"
| "str_exn (TypeError m) = m"
| "str_exn (ValueError m) = m"
| "str_exn (McpMemoryError m) = m"
| "str_exn (RecursionError m) = m"
| "str_exn (RuntimeError m) = m"
| "str_exn (OtherException m) = m"

fun is_ConnectError :: "exn \<Rightarrow> bool" where
  "is_ConnectError (ConnectError m) = True"
| "is_ConnectError e = False"

fun is_TimeoutException :: "exn \<Rightarrow> bool" where
  "is_TimeoutException (TimeoutException m) = True"
| "is_TimeoutException e = False"

fun is_TransportError :: "exn \<Rightarrow> bool" where
  "is_TransportError (TransportError m) = True"
| "is_TransportError e = False"

fun is_ValidationError :: "exn \<Rightarrow> bool" where
  "is_ValidationError (ValidationError m) = True"
| "is_ValidationError e = False"

fun is_ModelError :: "exn \<Rightarrow> bool" where
  "is_ModelError (ModelError m) = True"
| "is_ModelError e = False"

fun is_StreamingError :: "exn \<Rightarrow> bool" where
  "is_StreamingError (StreamingError m) = True"
| "is_StreamingError e = False"

subsection \<open>Strings\<close>

definition is_space :: "char \<Rightarrow> bool" where
  \<comment> \<open>the characters \<open>str.strip()\<close> removes, for code points below 256\<close>
  "is_space ch =
     (let n = (of_char ch :: nat)
      in (9 \<le> n \<and> n \<le> 13) \<or> (28 \<le> n \<and> n \<le> 32) \<or> n = 133 \<or> n = 160)"

definition strip :: "string \<Rightarrow> string" where
  "strip s = rev (dropWhile is_space (rev (dropWhile is_space s)))"

definition lower_char :: "char \<Rightarrow> char" where
  "lower_char ch =
     (let n = (of_char ch :: nat)
      in if (65 \<le> n \<and> n \<le> 90) \<or> (192 \<le> n \<and> n \<le> 222 \<and> n \<noteq> 215)
         then char_of (n + 32) else ch)"

definition lower :: "string \<Rightarrow> string" where
  "lower s = map lower_char s"

fun contains :: "string \<Rightarrow> string \<Rightarrow> bool" where
  \<comment> \<open>\<open>needle in haystack\<close> on strings\<close>
  "contains needle [] = (needle = [])"
| "contains needle (ch # rest) = (prefix needle (ch # rest) \<or> contains needle rest)"

fun join :: "string \<Rightarrow> string list \<Rightarrow> string" where
  \<comment> \<open>\<open>sep.join(parts)\<close>\<close>
  "join sep [] = []"
| "join sep [p] = p"
| "join sep (p # q # ps) = p @ sep @ join sep (q # ps)"

function str_nat :: "nat \<Rightarrow> string" where
  "str_nat n = (if n < 10 then [char_of (48 + n)] else str_nat (n div 10) @ [char_of (48 + n mod 10)])"
  by pat_completeness auto
termination
  by (relation "measure id") auto

declare str_nat.simps [simp del]

definition str_int :: "int \<Rightarrow> string" where
  "str_int i = (if i < 0 then CHR ''-'' # str_nat (nat (- i)) else str_nat (nat i))"

subsection \<open>Operations on decoded values\<close>

fun type_name :: "json \<Rightarrow> string" where
  "type_name JNull = ''NoneType''"
| "type_name (JBool b) = ''bool''"
| "type_name (JInt i) = ''int''"
| "type_name (JFloat x) = ''float''"
| "type_name (JStr s) = ''str''"
| "type_name (JArr xs) = ''list''"
| "type_name (JObj kvs) = ''dict''"

definition quoted :: "string \<Rightarrow> string" where
  "quoted s = [CHR 0x27] @ s @ [CHR 0x27]"

definition no_attribute :: "string \<Rightarrow> string \<Rightarrow> exn" where
  "no_attribute ty attr = AttributeError (quoted ty @ '' object has no attribute '' @ quoted attr)"

fun truthy :: "json \<Rightarrow> bool" where
  "truthy JNull = False"
| "truthy (JBool b) = b"
| "truthy (JInt i) = (i \<noteq> 0)"
| "truthy (JFloat x) = (x \<noteq> 0)"
| "truthy (JStr s) = (s \<noteq> [])"
| "truthy (JArr xs) = (xs \<noteq> [])"
| "truthy (JObj kvs) = (kvs \<noteq> [])"

definition dict_get :: "(string \<times> json) list \<Rightarrow> string \<Rightarrow> json \<Rightarrow> json" where
  \<comment> \<open>\<open>d.get(key, default)\<close> on a dict\<close>
  "dict_get d key dflt = (case map_of d key of Some v \<Rightarrow> v | None \<Rightarrow> dflt)"

definition py_get :: "json \<Rightarrow> string \<Rightarrow> json \<Rightarrow> exn + json" where
  \<comment> \<open>\<open>v.get(key, default)\<close> on any decoded value: only a dict has the method\<close>
  "py_get v key dflt =
     (case v of JObj d \<Rightarrow> Inr (dict_get d key dflt)
      | _ \<Rightarrow> Inl (no_attribute (type_name v) ''get''))"

definition py_len :: "json \<Rightarrow> exn + nat" where
  \<comment> \<open>\<open>len(v)\<close>\<close>
  "py_len v =
     (case v of
        JStr s \<Rightarrow> Inr (length s)
      | JArr xs \<Rightarrow> Inr (length xs)
      | JObj kvs \<Rightarrow> Inr (length kvs)
      | _ \<Rightarrow> Inl (TypeError (''object of type '' @ quoted (type_name v) @ '' has no len()'')))"

definition format_value :: "(json \<Rightarrow> string) \<Rightarrow> json \<Rightarrow> string" where
  \<comment> \<open>\<open>{v}\<close> in an f-string: a string is inserted as it is; the text Python prints for any
      other value is the parameter \<open>fmt\<close>\<close>
  "format_value fmt v = (case v of JStr s \<Rightarrow> s | _ \<Rightarrow> fmt v)"

definition tail_slice :: "int \<Rightarrow> 'a list \<Rightarrow> 'a list" where
  \<comment> \<open>\<open>xs[-n:]\<close>: the last \<open>n\<close> items for positive \<open>n\<close>; \<open>xs[-0:]\<close> is \<open>xs[0:]\<close>, the whole
      list; for negative \<open>n\<close> the start index \<open>-n\<close> is positive\<close>
  "tail_slice n xs = (if 0 < n then drop (length xs - nat n) xs else drop (nat (- n)) xs)"

section \<open>Model Gateway: \<open>app/llm/ollamaClient.py\<close>\<close>

record http_request =
  http_method :: string
  endpoint :: string
  json_data :: "json option"

text \<open>A response carries its body and what \<open>json.loads\<close> makes of the body: the decoded
  value, or the message of the \<open>JSONDecodeError\<close>.\<close>

record http_response =
  status_code :: int
  response_text :: string
  decoded :: "string + json"

datatype outcome = Response http_response | Raises exn

text \<open>The model service as the client sees it: the outcome of sending a request for the
  \<open>k\<close>-th time within one call (\<open>k\<close> counts from 0).\<close>

type_synonym transport = "http_request \<Rightarrow> nat \<Rightarrow> outcome"

record ollama_client =
  max_retries :: int
  retry_delay :: real

definition handle_error_response :: "(json \<Rightarrow> string) \<Rightarrow> http_response \<Rightarrow> exn + exn" where
  \<comment> \<open>\<open>Inr\<close>: the exception the method returns (its caller raises it); \<open>Inl\<close>: an
      exception raised inside the method itself\<close>
  "handle_error_response fmt r =
     (case (case decoded r of
              Inr error_data \<Rightarrow> py_get error_data ''error'' (JStr ''Unknown error'')
            | Inl m \<Rightarrow>
                Inr (JStr (if response_text r \<noteq> [] then response_text r
                           else ''HTTP '' @ str_int (status_code r)))) of
        Inl e \<Rightarrow> Inl e
      | Inr error_msg \<Rightarrow>
          if status_code r = 404 then
            (case error_msg of
               JStr s \<Rightarrow>
                 if contains ''model'' (lower s) then Inr (ModelError (''Model not found: '' @ s))
                 else Inr (ValidationError (''Endpoint not found: '' @ s))
             | _ \<Rightarrow> Inl (no_attribute (type_name error_msg) ''lower''))
          else if status_code r = 400 then
            Inr (ValidationError (''Bad request: '' @ format_value fmt error_msg))
          else if 500 \<le> status_code r \<and> status_code r < 600 then
            Inr (TransportError (''Server error: '' @ format_value fmt error_msg))
          else
            Inr (TransportError (''HTTP '' @ str_int (status_code r) @ '': ''
                                 @ format_value fmt error_msg)))"

definition raised :: "exn + exn \<Rightarrow> exn" where
  \<comment> \<open>\<open>raise await self._handle_error_response(...)\<close>: whichever exception comes out\<close>
  "raised x = (case x of Inl e \<Rightarrow> e | Inr e \<Rightarrow> e)"

definition handle_response :: "(json \<Rightarrow> string) \<Rightarrow> http_response \<Rightarrow> exn + json" where
  "handle_response fmt r =
     (if status_code r = 200 then
        (case decoded r of
           Inr j \<Rightarrow> Inr j
         | Inl m \<Rightarrow> Inl (ValidationError (''Invalid JSON response: '' @ m)))
      else Inl (raised (handle_error_response fmt r)))"

text \<open>What \<open>_make_request\<close> returns: the decoded body, the generator of a streaming
  request (not yet started), or \<open>None\<close> when the loop body never ran.\<close>

datatype reply = Json json | Generator http_request | NoValue

text \<open>The retry loop \<open>for attempt in range(self.max_retries + 1)\<close>. The first numeric
  argument counts the iterations left, the second is \<open>attempt\<close>. The result comes with the
  delays slept, in order, and the number of requests sent.\<close>

fun request_attempts ::
  "(json \<Rightarrow> string) \<Rightarrow> ollama_client \<Rightarrow> transport \<Rightarrow> http_request \<Rightarrow> bool \<Rightarrow>
   nat \<Rightarrow> nat \<Rightarrow> exn option \<Rightarrow> (exn + reply) \<times> real list \<times> nat" where
  "request_attempts fmt c tr req stream 0 attempt last_exception =
     ((case last_exception of
         Some e \<Rightarrow> Inl (TransportError (''Request failed: '' @ str_exn e))
       | None \<Rightarrow> Inr NoValue), [], 0)"
| "request_attempts fmt c tr req stream (Suc left) attempt last_exception =
     (if stream then (Inr (Generator req), [], 0)
      else
        (case tr req attempt of
           Response r \<Rightarrow>
             (case handle_response fmt r of
                Inr j \<Rightarrow> (Inr (Json j), [], 1)
              | Inl e \<Rightarrow> (Inl (TransportError (''Unexpected error: '' @ str_exn e)), [], 1))
         | Raises e \<Rightarrow>
             if is_ConnectError e \<or> is_TimeoutException e then
               (if int attempt < max_retries c then
                  (case request_attempts fmt c tr req stream left (Suc attempt) (Some e) of
                     (res, delays, sent) \<Rightarrow>
                       (res, retry_delay c * 2 ^ attempt # delays, Suc sent))
                else
                  (Inl (TransportError (''Connection failed after ''
                          @ str_int (max_retries c + 1) @ '' attempts: '' @ str_exn e)), [], 1))
             else (Inl (TransportError (''Unexpected error: '' @ str_exn e)), [], 1)))"

definition make_request ::
  "(json \<Rightarrow> string) \<Rightarrow> ollama_client \<Rightarrow> transport \<Rightarrow> http_request \<Rightarrow> bool \<Rightarrow>
   (exn + reply) \<times> real list \<times> nat" where
  "make_request fmt c tr req stream =
     request_attempts fmt c tr req stream (nat (max_retries c + 1)) 0 None"

definition reply_get :: "reply \<Rightarrow> string \<Rightarrow> json \<Rightarrow> exn + json" where
  \<comment> \<open>\<open>response.get(key, default)\<close> on what \<open>_make_request\<close> returned\<close>
  "reply_get rep key dflt =
     (case rep of
        Json j \<Rightarrow> py_get j key dflt
      | Generator req \<Rightarrow> Inl (no_attribute ''async_generator'' ''get'')
      | NoValue \<Rightarrow> Inl (no_attribute ''NoneType'' ''get''))"

definition list_models ::
  "(json \<Rightarrow> string) \<Rightarrow> ollama_client \<Rightarrow> transport \<Rightarrow> json \<times> nat" where
  \<comment> \<open>the value returned, and the number of requests sent\<close>
  "list_models fmt c tr =
     (case make_request fmt c tr \<lparr>http_method = ''GET'', endpoint = ''/api/tags'', json_data = None\<rparr> False of
        (Inl e, delays, sent) \<Rightarrow> (JArr [], sent)
      | (Inr response, delays, sent) \<Rightarrow>
          (case reply_get response ''models'' (JArr []) of
             Inr v \<Rightarrow> (v, sent)
           | Inl e \<Rightarrow> (JArr [], sent)))"

record health =
  connected :: bool
  status :: string
  models :: json
  model_count :: nat
  error :: "string option"

definition health_check :: "(json \<Rightarrow> string) \<Rightarrow> ollama_client \<Rightarrow> transport \<Rightarrow> health" where
  "health_check fmt c tr =
     (case list_models fmt c tr of
        (ms, sent) \<Rightarrow>
          (case py_len ms of
             Inr n \<Rightarrow>
               \<lparr>connected = True, status = ''online'', models = ms, model_count = n, error = None\<rparr>
           | Inl e \<Rightarrow>
               \<lparr>connected = False, status = ''offline'', models = JArr [], model_count = 0,
                error = Some (str_exn e)\<rparr>))"

record generate_options =
  model :: string
  temperature :: "real option"
  num_ctx :: "int option"
  num_gpu :: "int option"
  num_batch :: "int option"
  top_p :: "real option"
  top_k :: "int option"
  repeat_penalty :: "real option"
  stream :: bool
  keep_alive :: "json option"

definition opt_entry :: "string \<Rightarrow> 'a option \<Rightarrow> ('a \<Rightarrow> json) \<Rightarrow> (string \<times> json) list" where
  \<comment> \<open>\<open>if opts.field is not None: options[key] = opts.field\<close>\<close>
  "opt_entry key v wrap = (case v of None \<Rightarrow> [] | Some x \<Rightarrow> [(key, wrap x)])"

definition build_options_dict :: "generate_options \<Rightarrow> (string \<times> json) list" where
  "build_options_dict opts =
     opt_entry ''temperature'' (temperature opts) JFloat
     @ opt_entry ''num_ctx'' (num_ctx opts) JInt
     @ opt_entry ''num_gpu'' (num_gpu opts) JInt
     @ opt_entry ''num_batch'' (num_batch opts) JInt
     @ opt_entry ''top_p'' (top_p opts) JFloat
     @ opt_entry ''top_k'' (top_k opts) JInt
     @ opt_entry ''repeat_penalty'' (repeat_penalty opts) JFloat"

definition generate ::
  "(json \<Rightarrow> string) \<Rightarrow> ollama_client \<Rightarrow> transport \<Rightarrow> generate_options \<Rightarrow> string \<Rightarrow>
   (exn + reply) \<times> real list \<times> nat" where
  \<comment> \<open>with \<open>opts.stream\<close> the generator is returned unstarted: nothing is sent yet\<close>
  "generate fmt c tr opts prompt =
     (if strip prompt = [] then (Inl (ValidationError ''Prompt cannot be empty''), [], 0)
      else
        (let request_data =
               JObj ([(''model'', JStr (model opts)), (''prompt'', JStr prompt),
                      (''stream'', JBool (stream opts)),
                      (''options'', JObj (build_options_dict opts))]
                     @ opt_entry ''keep_alive'' (keep_alive opts) (\<lambda>k. k));
             req = \<lparr>http_method = ''POST'', endpoint = ''/api/generate'', json_data = Some request_data\<rparr>
         in if stream opts then (Inr (Generator req), [], 0)
            else make_request fmt c tr req False))"

definition embed_request :: "string \<Rightarrow> string list \<Rightarrow> http_request" where
  \<comment> \<open>a single text is sent as a string, several as a list\<close>
  "embed_request mdl texts =
     \<lparr>http_method = ''POST'', endpoint = ''/api/embed'',
      json_data = Some (JObj [(''model'', JStr mdl),
                   (''input'', (case texts of [t] \<Rightarrow> JStr t | _ \<Rightarrow> JArr (map JStr texts)))])\<rparr>"

definition embed_texts ::
  "(json \<Rightarrow> string) \<Rightarrow> ollama_client \<Rightarrow> transport \<Rightarrow> string \<Rightarrow> string list \<Rightarrow>
   (exn + reply) \<times> real list \<times> nat" where
  \<comment> \<open>\<open>OllamaClient.embed\<close>\<close>
  "embed_texts fmt c tr mdl texts =
     (if texts = [] then (Inl (ValidationError ''Texts cannot be empty''), [], 0)
      else if strip mdl = [] then (Inl (ValidationError ''Model name cannot be empty''), [], 0)
      else make_request fmt c tr (embed_request mdl texts) False)"

subsection \<open>The streaming reader \<open>_stream_request\<close>\<close>

text \<open>A streamed response: the transport either fails before any response, or gives a
  response whose body (for status 200) arrives as text fragments and then closes or fails.
  For another status the response record holds the error body read by \<open>aread()\<close>.\<close>

datatype stream_end = Closed | Failed exn

datatype stream_outcome =
    StreamRaises exn
  | StreamResponse http_response "string list" stream_end

definition newline :: char where
  "newline = CHR 0x0A"

text \<open>\<open>json.loads\<close> on one line has three outcomes: the decoded value; a
  \<open>JSONDecodeError\<close>, with its message; or an exception of another class, which the
  reader's \<open>except json.JSONDecodeError\<close> does not catch (\<open>RecursionError\<close> for a line
  nested too deeply, plain \<open>ValueError\<close> for an integer literal beyond the interpreter's
  digit limit).\<close>

datatype loads_outcome = Decoded json | DecodeError string | LoadsRaises exn

definition parse_line :: "(string \<Rightarrow> loads_outcome) \<Rightarrow> string \<Rightarrow> json list \<times> exn option" where
  \<comment> \<open>\<open>try: yield json.loads(line)  except json.JSONDecodeError: continue\<close>: what one
      non-empty line contributes to the stream, and the exception that leaves the
      \<open>try\<close>, if any\<close>
  "parse_line loads line =
     (case loads line of
        Decoded data \<Rightarrow> ([data], None)
      | DecodeError m \<Rightarrow> ([], None)
      | LoadsRaises e \<Rightarrow> ([], Some e))"

text \<open>The inner loop \<open>while '\n' in buffer\<close>: the chunks yielded, and either the buffer
  left or the exception that interrupted the loop.\<close>

function drain :: "(string \<Rightarrow> loads_outcome) \<Rightarrow> string \<Rightarrow> json list \<times> (exn + string)" where
  "drain loads buffer =
     (if newline \<in> set buffer then
        (let line = strip (takeWhile (\<lambda>ch. ch \<noteq> newline) buffer);
             rest = tl (dropWhile (\<lambda>ch. ch \<noteq> newline) buffer)
         in if line = [] then drain loads rest
            else
              (case parse_line loads line of
                 (ys, Some e) \<Rightarrow> (ys, Inl e)
               | (ys, None) \<Rightarrow>
                   (case drain loads rest of
                      (zs, left) \<Rightarrow> (ys @ zs, left))))
      else ([], Inr buffer))"
  by pat_completeness auto
termination
proof (relation "measure (\<lambda>(loads, buffer). length buffer)")
  show "wf (measure (\<lambda>(loads :: string \<Rightarrow> loads_outcome, buffer :: string). length buffer))"
    by simp
next
  fix loads :: "string \<Rightarrow> loads_outcome" and buffer :: string and x xa
  assume "newline \<in> set buffer" and "xa = tl (dropWhile (\<lambda>ch. ch \<noteq> newline) buffer)"
  moreover have "length (dropWhile (\<lambda>ch. ch \<noteq> newline) buffer) \<le> length buffer"
    by (rule length_dropWhile_le)
  moreover from \<open>newline \<in> set buffer\<close> have "dropWhile (\<lambda>ch. ch \<noteq> newline) buffer \<noteq> []"
    by (auto simp: dropWhile_eq_Nil_conv)
  ultimately show "((loads, xa), (loads, buffer)) \<in> measure (\<lambda>(loads, buffer). length buffer)"
    by (cases "dropWhile (\<lambda>ch. ch \<noteq> newline) buffer") auto
next
  fix loads :: "string \<Rightarrow> loads_outcome" and buffer :: string and x xa
  assume "newline \<in> set buffer" and "xa = tl (dropWhile (\<lambda>ch. ch \<noteq> newline) buffer)"
  moreover have "length (dropWhile (\<lambda>ch. ch \<noteq> newline) buffer) \<le> length buffer"
    by (rule length_dropWhile_le)
  moreover from \<open>newline \<in> set buffer\<close> have "dropWhile (\<lambda>ch. ch \<noteq> newline) buffer \<noteq> []"
    by (auto simp: dropWhile_eq_Nil_conv)
  ultimately show "((loads, xa), (loads, buffer)) \<in> measure (\<lambda>(loads, buffer). length buffer)"
    by (cases "dropWhile (\<lambda>ch. ch \<noteq> newline) buffer") auto
qed

declare drain.simps [simp del]

text \<open>The outer loop \<open>async for chunk in response.aiter_text()\<close>.\<close>

fun read_fragments ::
  "(string \<Rightarrow> loads_outcome) \<Rightarrow> string \<Rightarrow> string list \<Rightarrow> json list \<times> (exn + string)" where
  "read_fragments loads buffer [] = ([], Inr buffer)"
| "read_fragments loads buffer (chunk # rest) =
     (case drain loads (buffer @ chunk) of
        (ys, Inl e) \<Rightarrow> (ys, Inl e)
      | (ys, Inr left) \<Rightarrow>
          (case read_fragments loads left rest of
             (zs, final) \<Rightarrow> (ys @ zs, final)))"

definition stream_exn :: "exn \<Rightarrow> exn" where
  \<comment> \<open>the two \<open>except\<close> clauses around the stream; any other exception passes through\<close>
  "stream_exn e =
     (if is_TimeoutException e then StreamingError ''Stream timed out''
      else if is_ConnectError e then
        TransportError (''Connection error during streaming: '' @ str_exn e)
      else e)"

definition stream_request_full ::
  "(json \<Rightarrow> string) \<Rightarrow> (string \<Rightarrow> loads_outcome) \<Rightarrow> stream_outcome \<Rightarrow> json list \<times> exn option" where
  \<comment> \<open>the generator \<open>_stream_request\<close>: the items it yields, in order, and the exception
      that ends it, if any\<close>
  "stream_request_full fmt loads out =
     (case out of
        StreamRaises e \<Rightarrow> ([], Some (stream_exn e))
      | StreamResponse r fragments fin \<Rightarrow>
          if status_code r \<noteq> 200 then ([], Some (stream_exn (raised (handle_error_response fmt r))))
          else
            (case read_fragments loads [] fragments of
               (ys, Inl e) \<Rightarrow> (ys, Some (stream_exn e))
             | (ys, Inr buffer) \<Rightarrow>
                 (case fin of
                    Failed e \<Rightarrow> (ys, Some (stream_exn e))
                  | Closed \<Rightarrow>
                      if strip buffer \<noteq> [] then
                        (case parse_line loads (strip buffer) of
                           (zs, Some e) \<Rightarrow> (ys @ zs, Some (stream_exn e))
                         | (zs, None) \<Rightarrow> (ys @ zs, None))
                      else (ys, None))))"

text \<open>The statements on retries and on error kinds concern the reader on bodies whose
  lines \<open>json.loads\<close> either decodes or rejects with \<open>JSONDecodeError\<close>:
  \<open>stream_request\<close> is the generator for such a \<open>json.loads\<close>, given as the decoded value
  or the message of the \<open>JSONDecodeError\<close>.\<close>

definition decode_or_reject :: "(string \<Rightarrow> string + json) \<Rightarrow> string \<Rightarrow> loads_outcome" where
  "decode_or_reject loads s = (case loads s of Inr data \<Rightarrow> Decoded data | Inl m \<Rightarrow> DecodeError m)"

definition stream_request ::
  "(json \<Rightarrow> string) \<Rightarrow> (string \<Rightarrow> string + json) \<Rightarrow> stream_outcome \<Rightarrow> json list \<times> exn option" where
  "stream_request fmt loads out = stream_request_full fmt (decode_or_reject loads) out"

section \<open>Remote memory client: \<open>app/clients/mcpMemoryClient.py\<close>\<close>

record memory_request =
  url :: string
  params :: "(string \<times> json) list"
  headers :: "(string \<times> string) list"

definition rstrip_slash :: "string \<Rightarrow> string" where
  \<comment> \<open>\<open>server_url.rstrip('/')\<close>\<close>
  "rstrip_slash s = rev (dropWhile (\<lambda>ch. ch = CHR ''/'') (rev s))"

definition bearer :: "string option \<Rightarrow> (string \<times> string) list" where
  \<comment> \<open>\<open>if auth_token: headers['Authorization'] = f'Bearer {auth_token}'\<close>\<close>
  "bearer auth_token =
     (case auth_token of
        None \<Rightarrow> []
      | Some t \<Rightarrow> if t = [] then [] else [(''Authorization'', ''Bearer '' @ t)])"

definition retrieve_request ::
  "string \<Rightarrow> string \<Rightarrow> string \<Rightarrow> string \<Rightarrow> int \<Rightarrow> string option \<Rightarrow> memory_request" where
  \<comment> \<open>the GET request \<open>retrieve_memory\<close> sends\<close>
  "retrieve_request server_url server_id thread_id query limit auth_token =
     \<lparr>url = rstrip_slash server_url @ ''/memory/retrieve'',
      params = [(''server_id'', JStr server_id), (''thread_id'', JStr thread_id),
                (''q'', JStr query), (''limit'', JInt limit)],
      headers = bearer auth_token\<rparr>"

text \<open>\<open>retrieve_memory\<close>: \<open>net\<close> is the remote server, the outcome of the GET request.
  \<open>Inl\<close> is an exception leaving the method, \<open>Inr\<close> the value it returns.\<close>

definition retrieve_memory ::
  "(memory_request \<Rightarrow> outcome) \<Rightarrow> string \<Rightarrow> string \<Rightarrow> string \<Rightarrow> string \<Rightarrow> int \<Rightarrow>
   string option \<Rightarrow> exn + json" where
  "retrieve_memory net server_url server_id thread_id query limit auth_token =
     (if \<not> (prefix ''http://'' server_url \<or> prefix ''https://'' server_url) then
        Inl (McpMemoryError (''Invalid server URL: '' @ server_url))
      else
        (case net (retrieve_request server_url server_id thread_id query limit auth_token) of
           Raises e \<Rightarrow> Inr (JArr [])
         | Response r \<Rightarrow>
             if status_code r = 200 then
               (case decoded r of
                  Inl m \<Rightarrow> Inr (JArr [])
                | Inr data \<Rightarrow>
                    (case data of
                       JArr xs \<Rightarrow> Inr data
                     | JObj d \<Rightarrow>
                         (case map_of d ''snippets'' of
                            Some v \<Rightarrow> Inr v
                          | None \<Rightarrow>
                              (case map_of d ''memories'' of
                                 Some v \<Rightarrow> Inr v
                               | None \<Rightarrow> Inr (JArr [])))
                     | _ \<Rightarrow> Inr (JArr [])))
             else if status_code r = 404 then Inr (JArr [])
             else Inr (JArr [])))"

section \<open>Streaming a reply: the \<open>try\<close> block shared by both chat services\<close>

record chat_message =
  cm_role :: string
  cm_content :: string

record stream_chunk =
  chunk_content :: string
  chunk_done :: bool

text \<open>The gateway in streaming chat mode, as the services see it: for the options and
  messages sent, the chunks the stream delivers and the exception that ends it, if any.\<close>

type_synonym gateway = "generate_options \<Rightarrow> chat_message list \<Rightarrow> stream_chunk list \<times> exn option"

definition chat ::
  "gateway \<Rightarrow> generate_options \<Rightarrow> chat_message list \<Rightarrow> exn + stream_chunk list \<times> exn option" where
  \<comment> \<open>\<open>OllamaClient.chat\<close> with \<open>opts.stream\<close> set, as both services call it: the checks run
      before the stream is handed out\<close>
  "chat gw opts messages =
     (if messages = [] then Inl (ValidationError ''Messages cannot be empty'')
      else
        (case find (\<lambda>msg. cm_role msg \<notin> set [''user'', ''assistant'', ''system'']) messages of
           Some msg \<Rightarrow> Inl (ValidationError (''Invalid message role: '' @ cm_role msg))
         | None \<Rightarrow> Inr (gw opts messages)))"

text \<open>\<open>async for chunk in stream\<close>: the deltas yielded, the accumulated content, the token
  count, and the exception that interrupted the loop, if any. After a chunk with \<open>done\<close>
  the loop breaks and the rest of the stream is never read.\<close>

fun consume ::
  "stream_chunk list \<Rightarrow> exn option \<Rightarrow> string \<Rightarrow> nat \<Rightarrow> string list \<times> string \<times> nat \<times> exn option" where
  "consume [] fin assistant_content token_count = ([], assistant_content, token_count, fin)"
| "consume (chunk # rest) fin assistant_content token_count =
     (if chunk_content chunk \<noteq> [] then
        (if chunk_done chunk then
           ([chunk_content chunk], assistant_content @ chunk_content chunk, token_count + 1, None)
         else
           (case consume rest fin (assistant_content @ chunk_content chunk) (token_count + 1) of
              (ys, acc, n, e) \<Rightarrow> (chunk_content chunk # ys, acc, n, e)))
      else
        (if chunk_done chunk then ([], assistant_content, token_count, None)
         else consume rest fin assistant_content token_count))"

definition stream_reply ::
  "gateway \<Rightarrow> generate_options \<Rightarrow> chat_message list \<Rightarrow> string list \<times> string \<times> nat" where
  \<comment> \<open>the \<open>try\<close>/\<open>except Exception\<close> block: what is yielded to the caller, and the
      \<open>assistant_content\<close> and \<open>token_count\<close> the service goes on to persist\<close>
  "stream_reply gw opts messages =
     (case chat gw opts messages of
        Inl e \<Rightarrow> ([''Error: '' @ str_exn e], ''Error: '' @ str_exn e, 0)
      | Inr (chunks, fin) \<Rightarrow>
          (case consume chunks fin [] 0 of
             (ys, assistant_content, token_count, None) \<Rightarrow> (ys, assistant_content, token_count)
           | (ys, assistant_content, token_count, Some e) \<Rightarrow>
               (ys @ [''Error: '' @ str_exn e], ''Error: '' @ str_exn e, token_count)))"

section \<open>Persistent mode: \<open>app/services/companyChat.py\<close>\<close>

record company_chat_message =
  msg_id :: nat
  msg_thread_id :: nat
  msg_role :: string
  msg_content :: string
  msg_model_used :: "string option"
  msg_token_count :: "nat option"
  msg_created_at :: int

record company_chat_service =
  company_model :: string
  system_prompt :: string
  history_limit :: int

text \<open>The table \<open>company_chat_messages\<close> is the list of its rows. Every access to the
  database is written \<open>async with get_db_session() as session:\<close>. In
  \<open>app/db/database.py\<close>, \<open>get_db_session\<close> is a plain \<open>async def\<close> that yields the session;
  it is not wrapped by \<open>asynccontextmanager\<close>. Calling it returns an async generator, an
  object without \<open>__aenter__\<close> and \<open>__aexit__\<close>, so the \<open>async with\<close> statement raises
  \<open>TypeError\<close> before its body runs (Python 3.11 and later; earlier versions raise
  \<open>AttributeError\<close> at the same point).\<close>

definition get_db_session :: "company_chat_message list \<Rightarrow> exn + company_chat_message list" where
  \<comment> \<open>\<open>async with get_db_session() as session\<close> on the table: the session the body runs
      with, or the exception the statement raises\<close>
  "get_db_session db =
     Inl (TypeError (quoted ''async_generator''
            @ '' object does not support the asynchronous context manager protocol''))"

text \<open>The query of \<open>get_messages\<close> is answered by the database: \<open>run_query\<close> gives, for
  the table, a thread and a limit, the rows of
  \<open>SELECT ... WHERE thread_id = :t ORDER BY created_at DESC LIMIT :limit\<close>, newest first,
  or the error the database raises (how a negative or an oversized limit is treated
  depends on the database). The dictionaries returned are projections of the rows, so the
  model returns the rows.\<close>

type_synonym message_query =
  "company_chat_message list \<Rightarrow> nat \<Rightarrow> int \<Rightarrow> exn + company_chat_message list"

definition get_messages ::
  "company_chat_service \<Rightarrow> message_query \<Rightarrow> company_chat_message list \<Rightarrow> nat \<Rightarrow> int option \<Rightarrow>
   exn + company_chat_message list" where
  "get_messages svc run_query db thread_id limit =
     (let lim = (case limit of None \<Rightarrow> history_limit svc | Some l \<Rightarrow> l)
      in case get_db_session db of
           Inl e \<Rightarrow> Inl e
         | Inr session \<Rightarrow>
             (case run_query session thread_id lim of
                Inl e \<Rightarrow> Inl e
              | Inr messages \<Rightarrow> Inr (rev messages)))"

record memory_chunk =
  chunk_title :: string
  chunk_source :: string
  chunk_text :: string

fun rag_lines :: "nat \<Rightarrow> memory_chunk list \<Rightarrow> string list" where
  "rag_lines i [] = []"
| "rag_lines i (chunk # rest) =
     [str_nat i @ ''. '' @ chunk_title chunk @ '' [Source: '' @ chunk_source chunk @ '']'',
      ''   '' @ take 500 (chunk_text chunk) @ ''...'',
      []] @ rag_lines (Suc i) rest"

definition build_rag_context_message :: "memory_chunk list \<Rightarrow> string" where
  "build_rag_context_message chunks =
     (if chunks = [] then []
      else join [newline]
             ([''Here is relevant company knowledge to help answer the question:'' @ [newline]]
              @ rag_lines 1 chunks
              @ [''Use this information to provide accurate, cited responses.'']))"

definition company_opts :: "company_chat_service \<Rightarrow> generate_options" where
  "company_opts svc =
     \<lparr>model = company_model svc, temperature = Some 0.4, num_ctx = Some 1024, num_gpu = None,
      num_batch = None, top_p = None, top_k = None, repeat_penalty = None, stream = True,
      keep_alive = Some (JInt 0)\<rparr>"

record company_turn =
  yielded :: "string list"
  db_after :: "company_chat_message list"
  company_raised :: "exn option"

text \<open>\<open>send_company_message\<close>: the deltas yielded to the caller, the table afterwards, and
  the exception leaving the generator, if any. \<open>rag_chunks\<close> stands for the result of
  \<open>_retrieve_rag_context(text)\<close>, which never raises; the fresh row identifiers and the
  times the two rows are created are inputs. The method opens four sessions in turn: for
  the history (inside \<open>get_messages\<close>), for the user's row, for the assistant's row, and
  for the thread's \<open>updated_at\<close> stamp, which is not part of the table modelled.\<close>

definition send_company_message ::
  "company_chat_service \<Rightarrow> message_query \<Rightarrow> gateway \<Rightarrow> company_chat_message list \<Rightarrow> memory_chunk list \<Rightarrow>
   nat \<Rightarrow> string \<Rightarrow> nat \<times> int \<Rightarrow> nat \<times> int \<Rightarrow> company_turn" where
  "send_company_message svc run_query gw db rag_chunks thread_id text user_row assistant_row =
     (if strip text = [] then
        \<lparr>yielded = [], db_after = db, company_raised = Some (ValueError ''Message text cannot be empty'')\<rparr>
      else
        (case get_messages svc run_query db thread_id (Some (history_limit svc - 1)) of
           Inl e \<Rightarrow> \<lparr>yielded = [], db_after = db, company_raised = Some e\<rparr>
         | Inr history \<Rightarrow>
             (let messages =
                    [\<lparr>cm_role = ''system'', cm_content = system_prompt svc\<rparr>]
                    @ (if rag_chunks \<noteq> [] then
                         [\<lparr>cm_role = ''system'', cm_content = build_rag_context_message rag_chunks\<rparr>]
                       else [])
                    @ map (\<lambda>msg. \<lparr>cm_role = msg_role msg, cm_content = msg_content msg\<rparr>) history
                    @ [\<lparr>cm_role = ''user'', cm_content = text\<rparr>]
              in case get_db_session db of
                   Inl e \<Rightarrow> \<lparr>yielded = [], db_after = db, company_raised = Some e\<rparr>
                 | Inr session \<Rightarrow>
                     (let db1 = session @ [\<lparr>msg_id = fst user_row, msg_thread_id = thread_id,
                                             msg_role = ''user'', msg_content = text,
                                             msg_model_used = None, msg_token_count = None,
                                             msg_created_at = snd user_row\<rparr>]
                      in case stream_reply gw (company_opts svc) messages of
                           (ys, assistant_content, token_count) \<Rightarrow>
                             (case get_db_session db1 of
                                Inl e \<Rightarrow> \<lparr>yielded = ys, db_after = db1, company_raised = Some e\<rparr>
                              | Inr session1 \<Rightarrow>
                                  (let db2 = session1
                                         @ [\<lparr>msg_id = fst assistant_row, msg_thread_id = thread_id,
                                              msg_role = ''assistant'',
                                              msg_content = assistant_content,
                                              msg_model_used = Some (company_model svc),
                                              msg_token_count = Some token_count,
                                              msg_created_at = snd assistant_row\<rparr>]
                                   in case get_db_session db2 of
                                        Inl e \<Rightarrow>
                                          \<lparr>yielded = ys, db_after = db2, company_raised = Some e\<rparr>
                                      | Inr session2 \<Rightarrow>
                                          \<lparr>yielded = ys, db_after = db2,
                                           company_raised = None\<rparr>))))))"

definition summary_opts :: "company_chat_service \<Rightarrow> generate_options" where
  "summary_opts svc =
     \<lparr>model = company_model svc, temperature = Some 0.3, num_ctx = Some 1024, num_gpu = None,
      num_batch = None, top_p = None, top_k = None, repeat_penalty = None, stream = False,
      keep_alive = Some (JInt 0)\<rparr>"

definition summary_prompt :: "(string \<Rightarrow> string) \<Rightarrow> company_chat_message list \<Rightarrow> string" where
  \<comment> \<open>the prompt of \<open>summarize_thread\<close>; \<open>upper\<close> is \<open>str.upper\<close>\<close>
  "summary_prompt upper messages =
     ''Summarize this company chat conversation in 2-3 sentences, focusing on key decisions, action items, and important information discussed:''
     @ [newline, newline]
     @ join [newline] (map (\<lambda>msg. upper (msg_role msg) @ '': '' @ msg_content msg) messages)
     @ [newline, newline] @ ''Summary:''"

record summary_result =
  returned :: "exn + json"
  table_after :: "company_chat_message list"
  requests_sent :: nat

text \<open>\<open>summarize_thread\<close>: the value returned (or the exception raised), the table
  afterwards and the number of requests sent to the model service. The messages are
  loaded before the \<open>try\<close>; the session for the summary row is opened inside it.\<close>

definition summarize_thread ::
  "(json \<Rightarrow> string) \<Rightarrow> (string \<Rightarrow> string) \<Rightarrow> company_chat_service \<Rightarrow> ollama_client \<Rightarrow> transport \<Rightarrow>
   message_query \<Rightarrow> company_chat_message list \<Rightarrow> nat \<Rightarrow> nat \<times> int \<Rightarrow> summary_result" where
  "summarize_thread fmt upper svc c tr run_query db thread_id summary_row =
     (case get_messages svc run_query db thread_id (Some 50) of
        Inl e \<Rightarrow> \<lparr>returned = Inl e, table_after = db, requests_sent = 0\<rparr>
      | Inr messages \<Rightarrow>
          if length messages < 5 then
            \<lparr>returned = Inr (JStr ''Thread too short to summarize.''), table_after = db,
             requests_sent = 0\<rparr>
          else
            (case generate fmt c tr (summary_opts svc) (summary_prompt upper messages) of
               (Inl e, delays, sent) \<Rightarrow>
                 \<lparr>returned = Inr (JStr (''Summarization failed: '' @ str_exn e)), table_after = db,
                  requests_sent = sent\<rparr>
             | (Inr response, delays, sent) \<Rightarrow>
                 (case reply_get response ''response'' (JStr ''Unable to generate summary.'') of
                    Inl e \<Rightarrow>
                      \<lparr>returned = Inr (JStr (''Summarization failed: '' @ str_exn e)),
                       table_after = db, requests_sent = sent\<rparr>
                  | Inr summary \<Rightarrow>
                      (case get_db_session db of
                         Inl e \<Rightarrow>
                           \<lparr>returned = Inr (JStr (''Summarization failed: '' @ str_exn e)),
                            table_after = db, requests_sent = sent\<rparr>
                       | Inr session \<Rightarrow>
                           \<lparr>returned = Inr summary,
                            table_after = session
                              @ [\<lparr>msg_id = fst summary_row, msg_thread_id = thread_id,
                                   msg_role = ''system'',
                                   msg_content = ''[THREAD SUMMARY]: '' @ format_value fmt summary,
                                   msg_model_used = Some (company_model svc),
                                   msg_token_count = None,
                                   msg_created_at = snd summary_row\<rparr>],
                            requests_sent = sent\<rparr>))))"

section \<open>Ephemeral mode: \<open>app/services/mcpChat.py\<close>\<close>

text \<open>A cached turn is the dictionary the service writes for one message. The cache holds,
  per key, the list that was serialised last; the expiry (one hour, reset by every write)
  is not modelled: an expired key is an absent key. A cache that cannot be reached makes
  every call on it raise, which both accessors catch.\<close>

record cached_turn =
  turn_role :: string
  turn_content :: string
  turn_model_used :: "string option"
  turn_token_count :: "nat option"
  turn_timestamp :: string

record redis =
  reachable :: bool
  kv :: "string \<Rightarrow> cached_turn list option"

record mcp_chat_service =
  mcp_model :: string
  system_prompt_template :: "string \<Rightarrow> string"
  mcp_history_limit :: int

definition get_redis_key :: "string \<Rightarrow> string \<Rightarrow> string" where
  "get_redis_key server_id thread_id = ''mcpchat:'' @ server_id @ '':'' @ thread_id"

definition get_cached_messages ::
  "mcp_chat_service \<Rightarrow> redis \<Rightarrow> string \<Rightarrow> string \<Rightarrow> cached_turn list" where
  "get_cached_messages svc rds server_id thread_id =
     (if reachable rds then
        (case kv rds (get_redis_key server_id thread_id) of
           Some messages \<Rightarrow> tail_slice (mcp_history_limit svc) messages
         | None \<Rightarrow> [])
      else [])"

definition cache_messages ::
  "mcp_chat_service \<Rightarrow> redis \<Rightarrow> string \<Rightarrow> string \<Rightarrow> cached_turn list \<Rightarrow> redis" where
  "cache_messages svc rds server_id thread_id messages =
     (if reachable rds then
        rds\<lparr>kv := (kv rds)(get_redis_key server_id thread_id \<mapsto>
                       tail_slice (mcp_history_limit svc) messages)\<rparr>
      else rds)"

definition clear_mcp_thread ::
  "redis \<Rightarrow> string \<Rightarrow> string \<Rightarrow> bool \<times> redis" where
  "clear_mcp_thread rds server_id thread_id =
     (if reachable rds then
        (True, rds\<lparr>kv := (kv rds)(get_redis_key server_id thread_id := None)\<rparr>)
      else (False, rds))"

subsection \<open>The memory context message\<close>

definition iterate :: "json \<Rightarrow> exn + json list" where
  \<comment> \<open>what \<open>enumerate(v, 1)\<close> runs over: the items of a list, the characters of a string,
      the keys of a dict\<close>
  "iterate v =
     (case v of
        JArr xs \<Rightarrow> Inr xs
      | JStr s \<Rightarrow> Inr (map (\<lambda>ch. JStr [ch]) s)
      | JObj d \<Rightarrow> Inr (map (\<lambda>kv. JStr (fst kv)) d)
      | _ \<Rightarrow> Inl (TypeError (quoted (type_name v) @ '' object is not iterable'')))"

definition snippet_line :: "(json \<Rightarrow> string) \<Rightarrow> nat \<Rightarrow> json \<Rightarrow> exn + string" where
  "snippet_line fmt i snippet =
     (case snippet of
        JStr s \<Rightarrow> Inr (str_nat i @ ''. '' @ s)
      | JObj d \<Rightarrow>
          (let content = dict_get d ''content'' (dict_get d ''text'' (JStr (fmt snippet)));
               src = dict_get d ''source'' JNull
           in if truthy src then
                (let suffix = '' [Source: '' @ format_value fmt src @ '']''
                 in case content of
                      JStr s \<Rightarrow> Inr (str_nat i @ ''. '' @ s @ suffix)
                    | JArr xs \<Rightarrow>
                        Inr (str_nat i @ ''. '' @ fmt (JArr (xs @ map (\<lambda>ch. JStr [ch]) suffix)))
                    | _ \<Rightarrow>
                        Inl (TypeError (''unsupported operand type(s) for +=: ''
                               @ quoted (type_name content) @ '' and '' @ quoted ''str'')))
              else Inr (str_nat i @ ''. '' @ format_value fmt content))
      | _ \<Rightarrow> Inr (str_nat i @ ''. '' @ fmt snippet))"

fun snippet_lines :: "(json \<Rightarrow> string) \<Rightarrow> nat \<Rightarrow> json list \<Rightarrow> exn + string list" where
  "snippet_lines fmt i [] = Inr []"
| "snippet_lines fmt i (snippet # rest) =
     (case snippet_line fmt i snippet of
        Inl e \<Rightarrow> Inl e
      | Inr l \<Rightarrow>
          (case snippet_lines fmt (Suc i) rest of
             Inl e \<Rightarrow> Inl e
           | Inr ls \<Rightarrow> Inr (l # ls)))"

definition memory_context :: "(json \<Rightarrow> string) \<Rightarrow> json \<Rightarrow> exn + chat_message list" where
  \<comment> \<open>\<open>if memory_snippets: ...\<close>: the system message listing the snippets, if any\<close>
  "memory_context fmt memory_snippets =
     (if truthy memory_snippets then
        (case iterate memory_snippets of
           Inl e \<Rightarrow> Inl e
         | Inr items \<Rightarrow>
             (case snippet_lines fmt 1 items of
                Inl e \<Rightarrow> Inl e
              | Inr ls \<Rightarrow>
                  Inr [\<lparr>cm_role = ''system'',
                        cm_content = join [newline] (''Relevant server memory and context:'' # ls)\<rparr>]))
      else Inr [])"

definition mcp_opts :: "mcp_chat_service \<Rightarrow> generate_options" where
  "mcp_opts svc =
     \<lparr>model = mcp_model svc, temperature = Some 0.2, num_ctx = Some 768, num_gpu = Some 0,
      num_batch = None, top_p = None, top_k = None, repeat_penalty = None, stream = True,
      keep_alive = Some (JInt 0)\<rparr>"

record mcp_turn =
  mcp_yielded :: "string list"
  redis_after :: redis
  mcp_raised :: "exn option"

text \<open>\<open>send_mcp_message\<close>: the deltas yielded to the caller, the cache afterwards, and
  the exception leaving the generator, if any. The push to the remote memory sink changes
  nothing here (its result is only logged), but its argument \<open>len(memory_snippets)\<close> is
  evaluated first and can raise.\<close>

definition send_mcp_message ::
  "(json \<Rightarrow> string) \<Rightarrow> mcp_chat_service \<Rightarrow> gateway \<Rightarrow> (memory_request \<Rightarrow> outcome) \<Rightarrow> redis \<Rightarrow>
   string \<Rightarrow> string \<Rightarrow> string \<Rightarrow> string \<Rightarrow> string \<Rightarrow> string option \<Rightarrow> mcp_turn" where
  "send_mcp_message fmt svc gw net rds server_id thread_id text mcp_base_url server_name auth_token =
     (if strip text = [] then
        \<lparr>mcp_yielded = [], redis_after = rds,
         mcp_raised = Some (ValueError ''Message text cannot be empty'')\<rparr>
      else
        (let cached_messages = get_cached_messages svc rds server_id thread_id
         in case retrieve_memory net mcp_base_url server_id thread_id text 5 auth_token of
              Inl e \<Rightarrow> \<lparr>mcp_yielded = [], redis_after = rds, mcp_raised = Some e\<rparr>
            | Inr memory_snippets \<Rightarrow>
                (case memory_context fmt memory_snippets of
                   Inl e \<Rightarrow> \<lparr>mcp_yielded = [], redis_after = rds, mcp_raised = Some e\<rparr>
                 | Inr context \<Rightarrow>
                     (let messages =
                            [\<lparr>cm_role = ''system'', cm_content = system_prompt_template svc server_name\<rparr>]
                            @ context
                            @ map (\<lambda>msg. \<lparr>cm_role = turn_role msg, cm_content = turn_content msg\<rparr>)
                                cached_messages
                            @ [\<lparr>cm_role = ''user'', cm_content = text\<rparr>]
                      in case stream_reply gw (mcp_opts svc) messages of
                           (ys, assistant_content, token_count) \<Rightarrow>
                             (let new_messages =
                                    cached_messages
                                    @ [\<lparr>turn_role = ''user'', turn_content = text,
                                         turn_model_used = None, turn_token_count = None,
                                         turn_timestamp = ''now''\<rparr>,
                                       \<lparr>turn_role = ''assistant'', turn_content = assistant_content,
                                         turn_model_used = Some (mcp_model svc),
                                         turn_token_count = Some token_count,
                                         turn_timestamp = ''now''\<rparr>]
                              in \<lparr>mcp_yielded = ys,
                                  redis_after = cache_messages svc rds server_id thread_id new_messages,
                                  mcp_raised = (case py_len memory_snippets of
                                                  Inl e \<Rightarrow> Some e
                                                | Inr n \<Rightarrow> None)\<rparr>)))))"

section \<open>Notions used in the statements, and concrete inputs\<close>

definition has_len :: "json \<Rightarrow> bool" where
  \<comment> \<open>\<open>len(v)\<close> returns rather than raises\<close>
  "has_len v = (case py_len v of Inr n \<Rightarrow> True | Inl e \<Rightarrow> False)"

definition no_fmt :: "json \<Rightarrow> string" where
  \<comment> \<open>a stand-in for \<open>str()\<close> in examples that never format a value other than a string\<close>
  "no_fmt v = []"

definition default_client :: ollama_client where
  \<comment> \<open>the defaults of \<open>OllamaClient.__init__\<close>\<close>
  "default_client = \<lparr>max_retries = 2, retry_delay = 1\<rparr>"

definition always :: "http_response \<Rightarrow> transport" where
  \<comment> \<open>a service that answers every request with the same response\<close>
  "always r req k = Response r"

definition null_models_response :: http_response where
  \<open>null_models_response =
     \<lparr>status_code = 200, response_text = ''{"models":null}'',
      decoded = Inr (JObj [(''models'', JNull)])\<rparr>\<close>

definition retryable :: "outcome \<Rightarrow> bool" where
  \<comment> \<open>the failures \<open>except (ConnectError, TimeoutException)\<close> catches\<close>
  "retryable out =
     (case out of
        Raises e \<Rightarrow> is_ConnectError e \<or> is_TimeoutException e
      | Response r \<Rightarrow> False)"

definition settle :: "(json \<Rightarrow> string) \<Rightarrow> outcome \<Rightarrow> exn + reply" where
  \<comment> \<open>how \<open>_make_request\<close> ends on an outcome it does not retry: the decoded body of a
      good response, \<open>TransportError\<close> for anything raised meanwhile\<close>
  "settle fmt out =
     (case out of
        Response r \<Rightarrow>
          (case handle_response fmt r of
             Inr j \<Rightarrow> Inr (Json j)
           | Inl e \<Rightarrow> Inl (TransportError (''Unexpected error: '' @ str_exn e)))
      | Raises e \<Rightarrow> Inl (TransportError (''Unexpected error: '' @ str_exn e)))"

definition backoff :: "ollama_client \<Rightarrow> nat \<Rightarrow> nat \<Rightarrow> real list" where
  \<comment> \<open>the delays \<open>retry_delay * 2 ** attempt\<close> for \<open>n\<close> attempts from attempt \<open>a\<close> on\<close>
  "backoff c a n = map (\<lambda>k. retry_delay c * 2 ^ k) [a..<a + n]"

definition embeddings_returned :: "exn + reply \<Rightarrow> nat option" where
  \<comment> \<open>the number of embeddings in what \<open>embed\<close> returned\<close>
  "embeddings_returned res =
     (case res of
        Inr (Json (JObj d)) \<Rightarrow>
          (case map_of d ''embeddings'' of Some (JArr xs) \<Rightarrow> Some (length xs) | _ \<Rightarrow> None)
      | _ \<Rightarrow> None)"

definition refusing :: transport where
  \<comment> \<open>a service that refuses every connection\<close>
  "refusing req k = Raises (ConnectError ''All connection attempts failed'')"


definition show_request :: http_request where
  "show_request =
     \<lparr>http_method = ''POST'', endpoint = ''/api/show'',
      json_data = Some (JObj [(''name'', JStr ''llama9'')])\<rparr>"

definition no_loads :: "string \<Rightarrow> string + json" where
  \<comment> \<open>a stand-in for \<open>json.loads\<close> in examples that never parse a line\<close>
  "no_loads s = Inl ''Expecting value''"

definition missing_model_response :: http_response where
  \<open>missing_model_response =
     \<lparr>status_code = 404, response_text = ''{"error":"model llama9 not found"}'',
      decoded = Inr (JObj [(''error'', JStr ''model llama9 not found'')])\<rparr>\<close>

definition one_embedding_response :: http_response where
  \<open>one_embedding_response =
     \<lparr>status_code = 200, response_text = ''{"embeddings":[[1]]}'',
      decoded = Inr (JObj [(''embeddings'', JArr [JArr [JInt 1]])])\<rparr>\<close>

fun split_lines :: "string \<Rightarrow> string list" where
  \<comment> \<open>\<open>s.split('\n')\<close>: the pieces between newlines, the last one after the last newline\<close>
  "split_lines [] = [[]]"
| "split_lines (ch # rest) =
     (if ch = newline then [] # split_lines rest
      else (case split_lines rest of
              l # ls \<Rightarrow> (ch # l) # ls
            | [] \<Rightarrow> [[ch]]))"

fun read_lines :: "(string \<Rightarrow> loads_outcome) \<Rightarrow> string list \<Rightarrow> json list \<times> exn option" where
  \<comment> \<open>a sequence of lines read in order: a blank line counts for nothing, a line that
      decodes for its value, a line rejected with \<open>JSONDecodeError\<close> for nothing; an
      exception of another class ends the reading there\<close>
  "read_lines loads [] = ([], None)"
| "read_lines loads (l # ls) =
     (if strip l = [] then read_lines loads ls
      else
        (case loads (strip l) of
           Decoded v \<Rightarrow> (case read_lines loads ls of (ys, fin) \<Rightarrow> (v # ys, fin))
         | DecodeError m \<Rightarrow> read_lines loads ls
         | LoadsRaises e \<Rightarrow> ([], Some e)))"

definition sample_loads :: "string \<Rightarrow> loads_outcome" where
  \<comment> \<open>\<open>json.loads\<close> on the lines of the example below; any other text there is not JSON\<close>
  \<open>sample_loads s =
     (if s = ''{"a":1}'' then Decoded (JObj [(''a'', JInt 1)])
      else if s = ''{"b":2}'' then Decoded (JObj [(''b'', JInt 2)])
      else DecodeError ''Expecting value'')\<close>

definition deep_line :: string where
  \<comment> \<open>a line of 100000 opening brackets\<close>
  "deep_line = replicate 100000 (CHR 0x5B)"

definition nested_loads :: "string \<Rightarrow> loads_outcome" where
  \<comment> \<open>\<open>json.loads\<close> on the lines of the second example: decoding \<open>deep_line\<close> exceeds the
      recursion limit\<close>
  \<open>nested_loads s =
     (if s = deep_line then
        LoadsRaises (RecursionError
          ''maximum recursion depth exceeded while decoding a JSON array from a unicode string'')
      else if s = ''{"done":true}'' then Decoded (JObj [(''done'', JBool True)])
      else DecodeError ''Expecting value'')\<close>

definition nested_fragments :: "string list" where
  \<comment> \<open>a body of two lines: \<open>deep_line\<close>, then a line that decodes\<close>
  \<open>nested_fragments = [deep_line @ [newline], ''{"done":true}'' @ [newline]]\<close>

definition rejected_fragments :: "string list" where
  \<comment> \<open>the same body with a first line that is rejected with \<open>JSONDecodeError\<close>\<close>
  \<open>rejected_fragments = [''[[[['' @ [newline], ''{"done":true}'' @ [newline]]\<close>

definition ok_response :: http_response where
  "ok_response = \<lparr>status_code = 200, response_text = [], decoded = Inl ''Expecting value''\<rparr>"

definition sample_fragments :: "string list" where
  \<comment> \<open>a body cut inside its first line, with a line that is not JSON and no final newline\<close>
  \<open>sample_fragments =
     [''{"a"'', '':1}'' @ [newline] @ ''oops'' @ [newline] @ [newline] @ '' {"b":2} '']\<close>





definition not_implemented :: "memory_request \<Rightarrow> outcome" where
  \<comment> \<open>a server without the memory API\<close>
  "not_implemented req =
     Response \<lparr>status_code = 404, response_text = ''Not Found'', decoded = Inl ''Expecting value''\<rparr>"


definition company_service :: company_chat_service where
  "company_service =
     \<lparr>company_model = ''llama3.2:3b'', system_prompt = ''You are the DarkMatter Company Assistant.'',
      history_limit = 10\<rparr>"

definition row :: "nat \<Rightarrow> nat \<Rightarrow> string \<Rightarrow> string \<Rightarrow> int \<Rightarrow> company_chat_message" where
  "row i thread_id r c t =
     \<lparr>msg_id = i, msg_thread_id = thread_id, msg_role = r, msg_content = c, msg_model_used = None,
      msg_token_count = None, msg_created_at = t\<rparr>"

definition short_thread :: "company_chat_message list" where
  \<comment> \<open>three messages of thread 1, and one of thread 2\<close>
  "short_thread =
     [row 1 1 ''user'' ''hello'' 10, row 2 1 ''assistant'' ''hi'' 11, row 3 2 ''user'' ''other'' 12,
      row 4 1 ''user'' ''bye'' 13]"

definition newest_first :: message_query where
  \<comment> \<open>a database that answers the query as SQLite, the default database, does for a limit
      within 64 bits: the rows of the thread, newest first, cut at the limit; a negative
      limit is no limit\<close>
  "newest_first db thread_id row_limit =
     (let rows = sort_key (\<lambda>msg. - msg_created_at msg)
                   (filter (\<lambda>msg. msg_thread_id msg = thread_id) db)
      in Inr (if row_limit < 0 then rows else take (nat row_limit) rows))"

definition ascii_upper :: "string \<Rightarrow> string" where
  \<comment> \<open>\<open>str.upper\<close> on ASCII text\<close>
  "ascii_upper s =
     map (\<lambda>ch. let n = (of_char ch :: nat)
                in if 97 \<le> n \<and> n \<le> 122 then char_of (n - 32) else ch) s"

definition summarizing :: transport where
  \<open>summarizing req k =
     Response \<lparr>status_code = 200, response_text = ''{"response":"Greetings were exchanged."}'',
               decoded = Inr (JObj [(''response'', JStr ''Greetings were exchanged.'')])\<rparr>\<close>

definition append_turns ::
  "mcp_chat_service \<Rightarrow> redis \<Rightarrow> string \<Rightarrow> string \<Rightarrow> cached_turn list \<Rightarrow> redis" where
  \<comment> \<open>the read-modify-write by which \<open>send_mcp_message\<close> appends to a conversation: read
      the cached list, add the new turns, write the result back\<close>
  "append_turns svc rds server_id thread_id new =
     cache_messages svc rds server_id thread_id
       (get_cached_messages svc rds server_id thread_id @ new)"

definition user_turn :: "string \<Rightarrow> cached_turn" where
  "user_turn t =
     \<lparr>turn_role = ''user'', turn_content = t, turn_model_used = None, turn_token_count = None,
      turn_timestamp = ''now''\<rparr>"

definition assistant_turn :: "mcp_chat_service \<Rightarrow> string \<Rightarrow> nat \<Rightarrow> cached_turn" where
  "assistant_turn svc t n =
     \<lparr>turn_role = ''assistant'', turn_content = t, turn_model_used = Some (mcp_model svc),
      turn_token_count = Some n, turn_timestamp = ''now''\<rparr>"

definition mcp_service :: "int \<Rightarrow> mcp_chat_service" where
  \<comment> \<open>the service with history window \<open>w\<close>\<close>
  "mcp_service w =
     \<lparr>mcp_model = ''phi3:mini'',
      system_prompt_template = (\<lambda>server_name. ''You are the MCP Server Assistant for '' @ server_name @ ''.''),
      mcp_history_limit = w\<rparr>"

definition empty_redis :: redis where
  "empty_redis = \<lparr>reachable = True, kv = (\<lambda>key. None)\<rparr>"

definition unreachable_redis :: redis where
  \<comment> \<open>a cache that cannot be reached\<close>
  "unreachable_redis = \<lparr>reachable = False, kv = (\<lambda>key. None)\<rparr>"

definition three_cached :: redis where
  \<comment> \<open>a cache holding three entries for the conversation \<open>t1\<close> of server \<open>srv\<close>\<close>
  "three_cached =
     \<lparr>reachable = True,
      kv = (\<lambda>key. None)(get_redis_key ''srv'' ''t1'' \<mapsto>
              [user_turn ''a'', user_turn ''b'', user_turn ''c''])\<rparr>"



definition deltas :: "stream_chunk list \<Rightarrow> string list" where
  \<comment> \<open>the text deltas of a run of chunks that are forwarded: the non-empty ones\<close>
  "deltas chunks = filter (\<lambda>s. s \<noteq> []) (map chunk_content chunks)"

definition valid_role :: "string \<Rightarrow> bool" where
  "valid_role r = (r \<in> set [''user'', ''assistant'', ''system''])"

definition timing_out :: gateway where
  \<comment> \<open>a gateway whose stream delivers \<open>Hi\<close> and \<open> the\<close> and then times out\<close>
  "timing_out opts messages =
     ([\<lparr>chunk_content = ''Hi'', chunk_done = False\<rparr>,
       \<lparr>chunk_content = '' the'', chunk_done = False\<rparr>],
      Some (StreamingError ''Stream timed out''))"


definition closed_client :: gateway where
  \<comment> \<open>the stream as \<open>OllamaClient\<close> hands it out: \<open>_make_request\<close> returns the generator
      from inside \<open>async with httpx.AsyncClient(...)\<close>, so the HTTP client is closed
      before the generator is first read, and that read raises\<close>
  "closed_client opts messages =
     ([], Some (RuntimeError ''Cannot send a request, as the client has been closed.''))"

definition error_message :: "http_response \<Rightarrow> string option" where
  \<comment> \<open>the message of an error response when it is a string: the \<open>error\<close> field of an object
      body (\<open>Unknown error\<close> when the field is absent), or the raw body when it is not JSON\<close>
  "error_message r =
     (case decoded r of
        Inl m \<Rightarrow> Some (if response_text r \<noteq> [] then response_text r
                        else ''HTTP '' @ str_int (status_code r))
      | Inr (JObj d) \<Rightarrow>
          (case dict_get d ''error'' (JStr ''Unknown error'') of JStr s \<Rightarrow> Some s | _ \<Rightarrow> None)
      | Inr _ \<Rightarrow> None)"

definition mapped_error :: "int \<Rightarrow> string \<Rightarrow> exn" where
  \<comment> \<open>the error taxonomy of the gateway, by HTTP status\<close>
  "mapped_error code msg =
     (if code = 404 then
        (if contains ''model'' (lower msg) then ModelError (''Model not found: '' @ msg)
         else ValidationError (''Endpoint not found: '' @ msg))
      else if code = 400 then ValidationError (''Bad request: '' @ msg)
      else if 500 \<le> code \<and> code < 600 then TransportError (''Server error: '' @ msg)
      else TransportError (''HTTP '' @ str_int code @ '': '' @ msg))"
section \<open>Model Gateway: health check\<close>

lemma health_check_connected:
  "connected (health_check fmt c tr) = has_len (fst (list_models fmt c tr))"
  by (simp add: health_check_def has_len_def split: prod.splits sum.splits)

lemma health_check_status:
  "(status (health_check fmt c tr) = ''online'') = connected (health_check fmt c tr)"
  by (simp add: health_check_def split: prod.splits sum.splits)

lemma list_models_value:
  "fst (list_models fmt c tr) =
     (case fst (make_request fmt c tr \<lparr>http_method = ''GET'', endpoint = ''/api/tags'', json_data = None\<rparr> False) of
        Inr (Json (JObj d)) \<Rightarrow> dict_get d ''models'' (JArr [])
      | _ \<Rightarrow> JArr [])"
  by (simp add: list_models_def reply_get_def py_get_def
      split: prod.splits sum.splits reply.splits json.splits)

text \<open>
  Claim C10, as amended. \<open>health_check\<close> reports \<open>connected: True\<close> and \<open>status: 'online'\<close>
  for every outcome of the request to \<open>/api/tags\<close> but one: when the service answers 200
  with a JSON object whose \<open>models\<close> field is a value without a length (\<open>null\<close>, a number
  or a boolean), \<open>len(models)\<close> raises inside \<open>health_check\<close> and it reports
  \<open>connected: False\<close>, \<open>status: 'offline'\<close>. Every failed request (connection refused,
  timeout, error status, a body that is not JSON or not an object) is reported online.
\<close>

theorem health_check_offline_only_without_len:
  "connected (health_check fmt c tr) =
     (case fst (make_request fmt c tr \<lparr>http_method = ''GET'', endpoint = ''/api/tags'', json_data = None\<rparr> False) of
        Inr (Json (JObj d)) \<Rightarrow> has_len (dict_get d ''models'' (JArr []))
      | _ \<Rightarrow> True)
   \<and> (status (health_check fmt c tr) = ''online'') = connected (health_check fmt c tr)"
  unfolding health_check_status health_check_connected list_models_value
  by (simp add: has_len_def py_len_def split: sum.splits reply.splits json.splits)

text \<open>
  Claim C10 as stated fails: the service answers \<open>{"models": null}\<close> (what it sends when
  its model list is a nil slice), \<open>list_models\<close> returns \<open>None\<close>, and the health check
  reports \<open>connected: False\<close>.
\<close>

theorem health_check_null_models_offline:
  "connected (health_check no_fmt default_client (always null_models_response)) = False"
  by (simp add: health_check_def list_models_def make_request_def default_client_def always_def
      null_models_response_def handle_response_def reply_get_def py_get_def dict_get_def py_len_def
      numeral_3_eq_3)

section \<open>Model Gateway: retries and error kinds\<close>

lemma request_attempts_error:
  "request_attempts fmt c tr req s left a prev = (Inl e, ds, n) \<Longrightarrow> is_TransportError e"
proof (induction left arbitrary: a prev ds n)
  case 0
  then show ?case by (auto split: option.splits)
next
  case (Suc left)
  then show ?case
    by (auto split: if_splits outcome.splits sum.splits prod.splits)
qed

lemma make_request_error:
  "fst (make_request fmt c tr req s) = Inl e \<Longrightarrow> is_TransportError e"
  unfolding make_request_def
  by (cases "request_attempts fmt c tr req s (nat (max_retries c + 1)) 0 None")
     (auto dest: request_attempts_error)

lemma attempts_stop:
  assumes "\<forall>j. a \<le> j \<and> j < a + k \<longrightarrow> retryable (tr req j)"
    and "\<not> retryable (tr req (a + k))"
    and "k < left" and "int (a + left) = max_retries c + 1"
  shows "request_attempts fmt c tr req False left a prev =
           (settle fmt (tr req (a + k)), backoff c a k, Suc k)"
  using assms
proof (induction k arbitrary: a left prev)
  case 0
  then obtain l where l: "left = Suc l" by (cases left) auto
  from 0 show ?case
    by (auto simp: l settle_def backoff_def retryable_def split: outcome.splits sum.splits)
next
  case (Suc k)
  then obtain l where l: "left = Suc l" by (cases left) auto
  from Suc.prems(1) have r: "retryable (tr req a)" by simp
  then obtain e where e: "tr req a = Raises e" "is_ConnectError e \<or> is_TimeoutException e"
    by (auto simp: retryable_def split: outcome.splits)
  have lt: "int a < max_retries c" using Suc.prems l by simp
  have ih: "request_attempts fmt c tr req False l (Suc a) (Some e) =
              (settle fmt (tr req (Suc a + k)), backoff c (Suc a) k, Suc k)"
    using Suc.prems l by (intro Suc.IH) auto
  have "backoff c a (Suc k) = retry_delay c * 2 ^ a # backoff c (Suc a) k"
    by (simp add: backoff_def upt_rec)
  with e lt ih show ?case by (simp add: l)
qed


lemma make_request_stop:
  assumes "0 \<le> max_retries c" "k \<le> nat (max_retries c)"
    "\<forall>j<k. retryable (tr req j)" "\<not> retryable (tr req k)"
  shows "make_request fmt c tr req False = (settle fmt (tr req k), backoff c 0 k, Suc k)"
  unfolding make_request_def
  using attempts_stop[of 0 k tr req "nat (max_retries c + 1)" c fmt None] assms
  by simp










text \<open>
  Claim C6 (the code departs from it). The service answers a non-streaming call with 404
  and \<open>{"error": "model llama9 not found"}\<close>. \<open>_handle_error_response\<close> maps the response
  to \<open>ModelError\<close>, and a streaming call raises that \<open>ModelError\<close>; but inside
  \<open>_make_request\<close> the exception is raised within the \<open>try\<close> whose \<open>except Exception\<close>
  re-raises it as \<open>TransportError\<close>, so the caller of a non-streaming call never sees
  \<open>ModelError\<close> or \<open>ValidationError\<close>.
\<close>

theorem non_streaming_call_hides_ModelError:
  "handle_error_response no_fmt missing_model_response =
     Inr (ModelError ''Model not found: model llama9 not found'')
   \<and> stream_request no_fmt no_loads (StreamResponse missing_model_response [] Closed) =
       ([], Some (ModelError ''Model not found: model llama9 not found''))
   \<and> fst (make_request no_fmt default_client (always missing_model_response) show_request False) =
       Inl (TransportError ''Unexpected error: Model not found: model llama9 not found'')"
  by code_simp

section \<open>Model Gateway: embeddings\<close>

lemma settle_ok:
  "status_code r = 200 \<Longrightarrow> decoded r = Inr j \<Longrightarrow> settle fmt (Response r) = Inr (Json j)"
  by (simp add: settle_def handle_response_def)

lemma embed_returns_body:
  assumes "texts \<noteq> []" "strip mdl \<noteq> []" "0 \<le> max_retries c"
    "tr (embed_request mdl texts) 0 = Response r" "status_code r = 200" "decoded r = Inr j"
  shows "embed_texts fmt c tr mdl texts = (Inr (Json j), [], 1)"
proof -
  have "\<not> retryable (tr (embed_request mdl texts) 0)"
    using assms(4) by (simp add: retryable_def)
  then have "make_request fmt c tr (embed_request mdl texts) False =
      (settle fmt (tr (embed_request mdl texts) 0), backoff c 0 0, Suc 0)"
    using make_request_stop[of c 0 tr "embed_request mdl texts" fmt] assms(3) by simp
  with assms show ?thesis by (simp add: embed_texts_def settle_ok backoff_def)
qed

text \<open>
  Claim C8, as amended. \<open>embed\<close> fails with \<open>ValidationError\<close>, sending nothing, whenever
  \<open>texts\<close> is empty or the model name is empty or blank. Otherwise it sends the embed
  request through \<open>_make_request\<close> and returns what that returns: when the service answers
  200 with a body that decodes, the decoded body as it is. The number of embeddings in
  the body is not compared with \<open>len(texts)\<close>.
\<close>

theorem embed_contract:
  "(texts = [] \<or> strip mdl = [] \<longrightarrow>
      (\<exists>m. embed_texts fmt c tr mdl texts = (Inl (ValidationError m), [], 0)))
   \<and> (texts \<noteq> [] \<and> strip mdl \<noteq> [] \<longrightarrow>
      embed_texts fmt c tr mdl texts = make_request fmt c tr (embed_request mdl texts) False)
   \<and> (texts \<noteq> [] \<and> strip mdl \<noteq> [] \<and> 0 \<le> max_retries c
      \<and> tr (embed_request mdl texts) 0 = Response r \<and> status_code r = 200 \<and> decoded r = Inr j \<longrightarrow>
      embed_texts fmt c tr mdl texts = (Inr (Json j), [], 1))"
  using embed_returns_body[of texts mdl c tr r j fmt]
  by (auto simp: embed_texts_def)

theorem embed_contract_witness:
  "embed_texts no_fmt default_client refusing ''nomic-embed-text'' [] =
     (Inl (ValidationError ''Texts cannot be empty''), [], 0)
   \<and> [''a'', ''b''] \<noteq> ([] :: string list) \<and> strip ''nomic-embed-text'' \<noteq> []
   \<and> 0 \<le> max_retries default_client
   \<and> always one_embedding_response (embed_request ''nomic-embed-text'' [''a'', ''b'']) 0
       = Response one_embedding_response
   \<and> status_code one_embedding_response = 200
   \<and> decoded one_embedding_response = Inr (JObj [(''embeddings'', JArr [JArr [JInt 1]])])
   \<and> embed_texts no_fmt default_client (always one_embedding_response) ''nomic-embed-text'' [''a'', ''b'']
       = (Inr (Json (JObj [(''embeddings'', JArr [JArr [JInt 1]])])), [], 1)"
proof -
  have s: "strip ''nomic-embed-text'' \<noteq> []" by code_simp
  have h: "0 \<le> max_retries default_client" by (simp add: default_client_def)
  have a: "always one_embedding_response (embed_request ''nomic-embed-text'' [''a'', ''b'']) 0
       = Response one_embedding_response" by (simp add: always_def)
  have d: "decoded one_embedding_response = Inr (JObj [(''embeddings'', JArr [JArr [JInt 1]])])"
    and st: "status_code one_embedding_response = 200"
    by (simp_all add: one_embedding_response_def)
  have e: "embed_texts no_fmt default_client refusing ''nomic-embed-text'' [] =
     (Inl (ValidationError ''Texts cannot be empty''), [], 0)"
    using embed_contract[of "[]" "''nomic-embed-text''" no_fmt default_client refusing]
    by (simp add: embed_texts_def)
  have ne: "[''a'', ''b''] \<noteq> ([] :: string list)" by simp
  from embed_contract[of "[''a'', ''b'']" "''nomic-embed-text''" no_fmt default_client
      "always one_embedding_response" one_embedding_response
      "JObj [(''embeddings'', JArr [JArr [JInt 1]])]"] ne s h a d st
  have main: "embed_texts no_fmt default_client (always one_embedding_response) ''nomic-embed-text''
       [''a'', ''b''] = (Inr (Json (JObj [(''embeddings'', JArr [JArr [JInt 1]])])), [], 1)"
    by blast
  from e ne s h a st d main show ?thesis by blast
qed

text \<open>
  Claim C8 as stated fails: two texts are sent, the service answers 200 with one
  embedding, and \<open>embed\<close> returns that answer.
\<close>

theorem embed_returns_one_embedding_for_two_texts:
  "embeddings_returned
     (fst (embed_texts no_fmt default_client (always one_embedding_response) ''nomic-embed-text''
            [''a'', ''b''])) = Some 1"
  by code_simp

section \<open>Model Gateway: the streaming reader\<close>

lemma split_lines_not_Nil: "split_lines s \<noteq> []"
  by (induction s) (auto split: list.splits)

lemma split_lines_no_newline: "newline \<notin> set s \<Longrightarrow> split_lines s = [s]"
  by (induction s) auto

lemma split_lines_newline:
  "newline \<in> set s \<Longrightarrow>
   split_lines s = takeWhile (\<lambda>ch. ch \<noteq> newline) s # split_lines (tl (dropWhile (\<lambda>ch. ch \<noteq> newline) s))"
  by (induction s) (auto simp: split_lines_no_newline split: list.splits)

lemma last_split_lines_no_newline: "newline \<notin> set (last (split_lines s))"
  by (induction s) (auto simp: split_lines_not_Nil split: list.splits)

lemma split_lines_append:
  "split_lines (x @ y) = butlast (split_lines x) @ split_lines (last (split_lines x) @ y)"
proof (induction x)
  case Nil
  then show ?case by simp
next
  case (Cons ch x)
  show ?case
  proof (cases "ch = newline")
    case True
    with Cons show ?thesis by (simp add: split_lines_not_Nil)
  next
    case False
    obtain l ls where ls: "split_lines x = l # ls"
      using split_lines_not_Nil[of x] by (cases "split_lines x") auto
    show ?thesis
    proof (cases ls)
      case Nil
      with False ls Cons show ?thesis by simp
    next
      case (Cons l' ls')
      with False ls Cons.IH show ?thesis by simp
    qed
  qed
qed

lemma read_lines_append:
  "read_lines loads (xs @ ys) =
     (case read_lines loads xs of
        (as, Some e) \<Rightarrow> (as, Some e)
      | (as, None) \<Rightarrow> (case read_lines loads ys of (bs, fin) \<Rightarrow> (as @ bs, fin)))"
  by (induction xs) (auto split: loads_outcome.splits prod.splits option.splits)

lemma drain_lines:
  "drain loads s =
     (case read_lines loads (butlast (split_lines s)) of
        (ys, Some e) \<Rightarrow> (ys, Inl e)
      | (ys, None) \<Rightarrow> (ys, Inr (last (split_lines s))))"
proof (induction loads s rule: drain.induct)
  case (1 loads buffer)
  show ?case
  proof (cases "newline \<in> set buffer")
    case False
    then show ?thesis by (subst drain.simps) (simp add: split_lines_no_newline)
  next
    case True
    let ?first = "takeWhile (\<lambda>ch. ch \<noteq> newline) buffer"
    let ?rest = "tl (dropWhile (\<lambda>ch. ch \<noteq> newline) buffer)"
    have sl: "butlast (split_lines buffer) = ?first # butlast (split_lines ?rest)"
      and la: "last (split_lines buffer) = last (split_lines ?rest)"
      by (simp_all add: split_lines_newline[OF True] split_lines_not_Nil)
    show ?thesis
    proof (cases "strip ?first = []")
      case blank: True
      from "1.IH"(1)[OF True refl refl blank]
      show ?thesis by (subst drain.simps) (simp add: True blank sl la)
    next
      case nonblank: False
      show ?thesis
      proof (cases "loads (strip ?first)")
        case (Decoded v)
        then have p: "parse_line loads (strip ?first) = ([v], None)"
          by (simp add: parse_line_def)
        from "1.IH"(2)[OF True refl refl nonblank p[symmetric] refl]
        show ?thesis
          by (subst drain.simps)
             (auto simp: True nonblank sl la p Decoded split: prod.splits option.splits)
      next
        case (DecodeError m)
        then have p: "parse_line loads (strip ?first) = ([], None)"
          by (simp add: parse_line_def)
        from "1.IH"(2)[OF True refl refl nonblank p[symmetric] refl]
        show ?thesis
          by (subst drain.simps)
             (auto simp: True nonblank sl la p DecodeError split: prod.splits option.splits)
      next
        case (LoadsRaises e)
        then have p: "parse_line loads (strip ?first) = ([], Some e)"
          by (simp add: parse_line_def)
        show ?thesis
          by (subst drain.simps) (simp add: True nonblank sl p LoadsRaises)
      qed
    qed
  qed
qed

lemma read_fragments_lines:
  assumes "newline \<notin> set buffer"
  shows "read_fragments loads buffer fragments =
     (case read_lines loads (butlast (split_lines (buffer @ concat fragments))) of
        (ys, Some e) \<Rightarrow> (ys, Inl e)
      | (ys, None) \<Rightarrow> (ys, Inr (last (split_lines (buffer @ concat fragments)))))"
  using assms
proof (induction fragments arbitrary: buffer)
  case Nil
  then show ?case by (simp add: split_lines_no_newline)
next
  case (Cons chunk rest)
  let ?left = "last (split_lines (buffer @ chunk))"
  have nl: "newline \<notin> set ?left" by (rule last_split_lines_no_newline)
  have sl: "split_lines ?left = [?left]" using nl by (rule split_lines_no_newline)
  have app: "split_lines (buffer @ chunk @ concat rest) =
      butlast (split_lines (buffer @ chunk)) @ split_lines (?left @ concat rest)"
    using split_lines_append[of "buffer @ chunk" "concat rest"] by simp
  have ne: "split_lines (?left @ concat rest) \<noteq> []" by (rule split_lines_not_Nil)
  show ?case
    using Cons.IH[OF nl]
    by (auto simp: drain_lines app butlast_append ne read_lines_append
        split: prod.splits option.splits)
qed

text \<open>
  The reader, for every way the body of a 200 response is cut into fragments. The body is
  read line by line, in order: the lines are the pieces between newlines and, when the
  stream closes, the piece after the last newline; each line is stripped; a blank line
  counts for nothing, a line that \<open>json.loads\<close> decodes yields its value, a line it rejects
  with \<open>JSONDecodeError\<close> is skipped. An exception of another class from \<open>json.loads\<close>
  ends the stream, after the chunks of the lines before it. When the transport fails, the
  chunks of the complete lines delivered before are kept, the unfinished line is dropped
  and the failure ends the stream.
\<close>

lemma reader_by_lines:
  "stream_request_full fmt loads (StreamResponse (r\<lparr>status_code := 200\<rparr>) fragments fin) =
     (case fin of
        Closed \<Rightarrow>
          (case read_lines loads (split_lines (concat fragments)) of
             (ys, x) \<Rightarrow> (ys, map_option stream_exn x))
      | Failed e \<Rightarrow>
          (case read_lines loads (butlast (split_lines (concat fragments))) of
             (ys, Some x) \<Rightarrow> (ys, Some (stream_exn x))
           | (ys, None) \<Rightarrow> (ys, Some (stream_exn e))))"
proof -
  let ?ls = "split_lines (concat fragments)"
  have rf: "read_fragments loads [] fragments =
      (case read_lines loads (butlast ?ls) of
         (ys, Some e) \<Rightarrow> (ys, Inl e)
       | (ys, None) \<Rightarrow> (ys, Inr (last ?ls)))"
    using read_fragments_lines[of "[]" loads fragments] by simp
  have whole: "read_lines loads ?ls =
      (case read_lines loads (butlast ?ls) of
         (as, Some e) \<Rightarrow> (as, Some e)
       | (as, None) \<Rightarrow> (case read_lines loads [last ?ls] of (bs, fin) \<Rightarrow> (as @ bs, fin)))"
    using read_lines_append[of loads "butlast ?ls" "[last ?ls]"] split_lines_not_Nil[of "concat fragments"]
    by simp
  show ?thesis
  proof (cases fin)
    case (Failed e)
    then show ?thesis
      by (auto simp: stream_request_full_def rf split: prod.splits option.splits)
  next
    case Closed
    then show ?thesis
      by (auto simp: stream_request_full_def rf whole parse_line_def
          split: prod.splits option.splits loads_outcome.splits)
  qed
qed

lemma split_lines_line:
  "newline \<notin> set s \<Longrightarrow> split_lines (s @ newline # t) = s # split_lines t"
  by (induction s) (auto simp: split_lines_not_Nil split: list.splits)

lemma deep_line_no_newline: "newline \<notin> set deep_line"
  by (simp add: deep_line_def newline_def)

lemma strip_deep_line: "strip deep_line = deep_line"
  by (simp add: strip_def deep_line_def is_space_def)

lemma deep_line_not_Nil: "deep_line \<noteq> []"
  by (simp add: deep_line_def)

lemma length_deep_line: "length deep_line = 100000"
  by (simp add: deep_line_def)

lemma read_lines_deep_line:
  "read_lines nested_loads (deep_line # ls) =
     ([], Some (RecursionError
        ''maximum recursion depth exceeded while decoding a JSON array from a unicode string''))"
  by (simp add: strip_deep_line deep_line_not_Nil nested_loads_def)

text \<open>
  Claim C4 (the code departs from it). The claim has every line that fails to parse
  skipped, the stream going on and the chunks of the other lines unchanged. The reader
  does this for a line that \<open>json.loads\<close> rejects with \<open>JSONDecodeError\<close>, the only exception
  it catches: of the two lines \<open>[[[[\<close> and \<open>{"done":true}\<close> it yields the chunk of the
  second. When the first line is 100000 opening brackets instead, \<open>json.loads\<close> raises
  \<open>RecursionError\<close>, which leaves the generator: the stream ends with that exception and
  the chunk of the second line is never yielded.
\<close>

theorem unparsable_line_ends_stream:
  "stream_request_full no_fmt nested_loads (StreamResponse ok_response rejected_fragments Closed) =
     ([JObj [(''done'', JBool True)]], None)
   \<and> stream_request_full no_fmt nested_loads (StreamResponse ok_response nested_fragments Closed) =
     ([], Some (RecursionError
        ''maximum recursion depth exceeded while decoding a JSON array from a unicode string''))"
proof -
  have r: "ok_response\<lparr>status_code := 200\<rparr> = ok_response"
    by (simp add: ok_response_def)
  have short: "''[[[['' \<noteq> deep_line"
  proof
    assume "''[[[['' = deep_line"
    then have "length ''[[[['' = length deep_line" by simp
    then show False by (simp add: length_deep_line)
  qed
  have dl: "''{\"done\":true}'' \<noteq> deep_line"
  proof
    assume "''{\"done\":true}'' = deep_line"
    then have "hd ''{\"done\":true}'' = hd deep_line" by simp
    then show False by (simp add: deep_line_def)
  qed
  have "split_lines (concat rejected_fragments) = [''[[[['', ''{\"done\":true}'', []]"
    by (simp add: rejected_fragments_def newline_def)
  then have a: "read_lines nested_loads (split_lines (concat rejected_fragments)) =
      ([JObj [(''done'', JBool True)]], None)"
    using short dl by (simp add: nested_loads_def strip_def is_space_def)
  have "split_lines (concat nested_fragments) = deep_line # split_lines (''{\"done\":true}'' @ [newline])"
    using split_lines_line[OF deep_line_no_newline] by (simp add: nested_fragments_def)
  then have b: "read_lines nested_loads (split_lines (concat nested_fragments)) =
     ([], Some (RecursionError
        ''maximum recursion depth exceeded while decoding a JSON array from a unicode string''))"
    by (simp only: read_lines_deep_line)
  from reader_by_lines[of no_fmt nested_loads ok_response rejected_fragments Closed]
    reader_by_lines[of no_fmt nested_loads ok_response nested_fragments Closed] r a b
  show ?thesis by (simp add: stream_exn_def)
qed

text \<open>The chunks read before the stream fails are kept: the transport delivers a line and
  a half and then times out; the chunk of the complete line is yielded, the half line is
  dropped, and the generator ends with \<open>StreamingError\<close>.\<close>

lemma failed_stream_keeps_chunks:
  "stream_request_full no_fmt sample_loads
     (StreamResponse ok_response sample_fragments (Failed (TimeoutException ''timed out''))) =
     ([JObj [(''a'', JInt 1)]], Some (StreamingError ''Stream timed out''))"
proof -
  have r: "ok_response\<lparr>status_code := 200\<rparr> = ok_response"
    by (simp add: ok_response_def)
  have b: "read_lines sample_loads (butlast (split_lines (concat sample_fragments))) =
      ([JObj [(''a'', JInt 1)]], None)"
    by code_simp
  from reader_by_lines[of no_fmt sample_loads ok_response sample_fragments
      "Failed (TimeoutException ''timed out'')"] r b
  show ?thesis by (simp add: stream_exn_def)
qed

section \<open>Remote memory retrieval\<close>








section \<open>Persistent mode: no database access succeeds\<close>

text \<open>Every method of the service reaches an \<open>async with get_db_session()\<close> before
  it does anything else with the table, and that statement raises.\<close>

lemma get_messages_raises:
  "get_messages svc run_query db thread_id limit =
     Inl (TypeError (quoted ''async_generator''
             @ '' object does not support the asynchronous context manager protocol''))"
  by (simp add: get_messages_def get_db_session_def)

lemma send_company_message_raises:
  "strip text \<noteq> [] \<Longrightarrow>
   send_company_message svc run_query gw db rag_chunks thread_id text user_row assistant_row =
     \<lparr>yielded = [], db_after = db,
      company_raised = Some (TypeError (quoted ''async_generator''
             @ '' object does not support the asynchronous context manager protocol''))\<rparr>"
  by (simp add: send_company_message_def get_messages_raises)

lemma summarize_thread_raises:
  "summarize_thread fmt upper svc c tr run_query db thread_id new_row =
     \<lparr>returned = Inl (TypeError (quoted ''async_generator''
             @ '' object does not support the asynchronous context manager protocol'')),
      table_after = db, requests_sent = 0\<rparr>"
  by (simp add: summarize_thread_def get_messages_raises)

text \<open>
  Claim C9 (the code departs from it). The thread holds three messages, fewer than five,
  and the model service would answer; the claim has \<open>summarize_thread\<close> return the fixed
  text \<open>Thread too short to summarize.\<close> and never raise. The method loads the messages
  with \<open>get_messages\<close> before its \<open>try\<close> block; \<open>get_messages\<close> opens its session with
  \<open>async with get_db_session()\<close>, which raises \<open>TypeError\<close>; so \<open>summarize_thread\<close> raises
  that \<open>TypeError\<close>, sends nothing and stores nothing, for this thread as for every other.
\<close>

theorem summarize_thread_raises_on_short_thread:
  "newest_first short_thread 1 50 =
     Inr [row 4 1 ''user'' ''bye'' 13, row 2 1 ''assistant'' ''hi'' 11, row 1 1 ''user'' ''hello'' 10]
   \<and> summarize_thread no_fmt ascii_upper company_service default_client summarizing newest_first
        short_thread 1 (7, 20) =
       \<lparr>returned = Inl (TypeError (quoted ''async_generator''
             @ '' object does not support the asynchronous context manager protocol'')),
        table_after = short_thread, requests_sent = 0\<rparr>"
proof -
  have "newest_first short_thread 1 50 =
     Inr [row 4 1 ''user'' ''bye'' 13, row 2 1 ''assistant'' ''hi'' 11, row 1 1 ''user'' ''hello'' 10]"
    by code_simp
  then show ?thesis
    by (simp add: summarize_thread_def get_messages_def get_db_session_def)
qed

section \<open>The two conversation stores\<close>

lemma tail_slice_pos: "0 < n \<Longrightarrow> tail_slice n xs = drop (length xs - nat n) xs"
  by (simp add: tail_slice_def)

lemma tail_slice_length: "0 < n \<Longrightarrow> length (tail_slice n xs) \<le> nat n"
  by (simp add: tail_slice_def)

lemma tail_slice_suffix: "suffix (tail_slice n xs) xs"
  by (simp add: tail_slice_def suffix_drop)

lemma drop_last_twice:
  "drop (length (drop (length xs - n) xs @ ys) - n) (drop (length xs - n) xs @ ys) =
   drop (length (xs @ ys) - n) (xs @ ys)"
  by (cases "length xs \<le> n") (auto simp: drop_append add.commute)

lemma tail_slice_twice:
  "0 < n \<Longrightarrow> tail_slice n (tail_slice n xs @ ys) = tail_slice n (xs @ ys)"
proof -
  assume "0 < n"
  then have a: "tail_slice n zs = drop (length zs - nat n) zs" for zs :: "'a list"
    by (simp add: tail_slice_def)
  show ?thesis unfolding a by (rule drop_last_twice)
qed

lemma cache_messages_stored:
  "reachable rds \<Longrightarrow>
   kv (cache_messages svc rds server_id thread_id messages) (get_redis_key server_id thread_id) =
     Some (tail_slice (mcp_history_limit svc) messages)"
  by (simp add: cache_messages_def)

lemma cache_messages_reachable:
  "reachable (cache_messages svc rds server_id thread_id messages) = reachable rds"
  by (simp add: cache_messages_def)

lemma get_after_append:
  assumes "0 < mcp_history_limit svc" "reachable rds"
  shows "get_cached_messages svc (append_turns svc rds server_id thread_id new) server_id thread_id =
           tail_slice (mcp_history_limit svc) (get_cached_messages svc rds server_id thread_id @ new)"
proof -
  have "tail_slice (mcp_history_limit svc) (tail_slice (mcp_history_limit svc) zs) =
        tail_slice (mcp_history_limit svc) zs" for zs :: "cached_turn list"
    using tail_slice_twice[OF assms(1), of zs "[]"] by simp
  with assms show ?thesis
    by (simp add: append_turns_def get_cached_messages_def cache_messages_def)
qed

lemma tail_slice_idem:
  "0 < n \<Longrightarrow> tail_slice n (tail_slice n xs) = tail_slice n xs"
  using tail_slice_twice[of n xs "[]"] by simp

lemma get_cached_idem:
  assumes "0 < mcp_history_limit svc"
  shows "tail_slice (mcp_history_limit svc) (get_cached_messages svc rds server_id thread_id) =
           get_cached_messages svc rds server_id thread_id"
proof (cases "reachable rds")
  case False
  then show ?thesis by (simp add: get_cached_messages_def tail_slice_def)
next
  case True
  show ?thesis
  proof (cases "kv rds (get_redis_key server_id thread_id)")
    case None
    with True show ?thesis by (simp add: get_cached_messages_def tail_slice_def)
  next
    case (Some stored)
    with True show ?thesis
      by (simp add: get_cached_messages_def tail_slice_idem[OF assms])
  qed
qed

lemma append_turns_reachable:
  "reachable (append_turns svc rds server_id thread_id new) = reachable rds"
  by (simp add: append_turns_def cache_messages_reachable)

lemma get_after_appends:
  assumes "0 < mcp_history_limit svc" "reachable rds"
  shows "get_cached_messages svc
           (foldl (\<lambda>r new. append_turns svc r server_id thread_id new) rds turns) server_id thread_id =
         tail_slice (mcp_history_limit svc)
           (get_cached_messages svc rds server_id thread_id @ concat turns)"
  using assms(2)
proof (induction turns arbitrary: rds)
  case Nil
  show ?case
    by (simp add: get_cached_idem[OF assms(1)])
next
  case (Cons new turns)
  have r: "reachable (append_turns svc rds server_id thread_id new)"
    using Cons.prems by (simp add: append_turns_reachable)
  show ?case
    using Cons.IH[OF r] get_after_append[OF assms(1) Cons.prems, of server_id thread_id new]
      tail_slice_twice[OF assms(1), of "get_cached_messages svc rds server_id thread_id @ new"
        "concat turns"]
    by simp
qed

lemma redis_key_injective:
  assumes "CHR '':'' \<notin> set s" "CHR '':'' \<notin> set s'"
    and "get_redis_key s t = get_redis_key s' t'"
  shows "s = s' \<and> t = t'"
proof -
  from assms(3) have eq: "s @ CHR '':'' # t = s' @ CHR '':'' # t'"
    by (simp add: get_redis_key_def)
  have "takeWhile (\<lambda>ch. ch \<noteq> CHR '':'') (s @ CHR '':'' # t) = s"
    using assms(1) by (induction s) auto
  moreover have "takeWhile (\<lambda>ch. ch \<noteq> CHR '':'') (s' @ CHR '':'' # t') = s'"
    using assms(2) by (induction s') auto
  ultimately have "s = s'" using eq by simp
  with eq show ?thesis by simp
qed

text \<open>A turn of \<open>send_mcp_message\<close> that gets as far as generating a reply ends with
  exactly this read-modify-write: the user's entry and the assistant's entry are appended.\<close>

lemma send_mcp_message_appends:
  assumes "strip text \<noteq> []"
    and "retrieve_memory net mcp_base_url server_id thread_id text 5 auth_token = Inr snippets"
    and "memory_context fmt snippets = Inr memory_msgs"
  shows "\<exists>content n.
           redis_after (send_mcp_message fmt svc gw net rds server_id thread_id text mcp_base_url
              server_name auth_token) =
             append_turns svc rds server_id thread_id [user_turn text, assistant_turn svc content n]"
  using assms
  by (auto simp: send_mcp_message_def Let_def append_turns_def user_turn_def assistant_turn_def
      split: prod.splits)

text \<open>
  For a history window \<open>W \<ge> 1\<close> and a reachable cache, every write stores the last \<open>W\<close>
  entries of the list it is given, so the stored list never has more than \<open>W\<close> entries;
  and after any sequence of appended turns the cached conversation is the last \<open>W\<close>
  entries of everything appended (exactly \<open>W\<close> entries once more than \<open>W\<close> were appended).
\<close>

lemma cache_window:
  assumes "0 < mcp_history_limit svc" and "reachable rds"
  shows
    "kv (cache_messages svc rds server_id thread_id messages) (get_redis_key server_id thread_id) =
       Some (drop (length messages - nat (mcp_history_limit svc)) messages)
     \<and> length (drop (length messages - nat (mcp_history_limit svc)) messages)
         \<le> nat (mcp_history_limit svc)
     \<and> get_cached_messages svc
         (foldl (\<lambda>r new. append_turns svc r server_id thread_id new) rds turns) server_id thread_id =
       drop (length (get_cached_messages svc rds server_id thread_id @ concat turns)
               - nat (mcp_history_limit svc))
         (get_cached_messages svc rds server_id thread_id @ concat turns)
     \<and> (nat (mcp_history_limit svc) < length (concat turns) \<longrightarrow>
         length (get_cached_messages svc
           (foldl (\<lambda>r new. append_turns svc r server_id thread_id new) rds turns) server_id thread_id)
         = nat (mcp_history_limit svc))"
proof -
  have 1: "kv (cache_messages svc rds server_id thread_id messages) (get_redis_key server_id thread_id) =
       Some (drop (length messages - nat (mcp_history_limit svc)) messages)"
    using cache_messages_stored[OF assms(2)] assms(1) by (simp add: tail_slice_pos)
  have 2: "length (drop (length messages - nat (mcp_history_limit svc)) messages)
         \<le> nat (mcp_history_limit svc)"
    by simp
  have 3: "get_cached_messages svc
         (foldl (\<lambda>r new. append_turns svc r server_id thread_id new) rds turns) server_id thread_id =
       drop (length (get_cached_messages svc rds server_id thread_id @ concat turns)
               - nat (mcp_history_limit svc))
         (get_cached_messages svc rds server_id thread_id @ concat turns)"
    using get_after_appends[OF assms] assms(1) by (simp add: tail_slice_pos del: length_append)
  have 4: "length (get_cached_messages svc
           (foldl (\<lambda>r new. append_turns svc r server_id thread_id new) rds turns) server_id thread_id)
         = nat (mcp_history_limit svc)"
    if "nat (mcp_history_limit svc) < length (concat turns)"
    using that by (simp add: 3)
  from 1 2 3 4 show ?thesis by blast
qed

lemma cache_window_example:
  "0 < mcp_history_limit (mcp_service 2) \<and> reachable empty_redis
   \<and> get_cached_messages (mcp_service 2)
        (foldl (\<lambda>r new. append_turns (mcp_service 2) r ''srv'' ''t1'' new) empty_redis
           [[user_turn ''a'', assistant_turn (mcp_service 2) ''b'' 1],
            [user_turn ''c'', assistant_turn (mcp_service 2) ''d'' 1]])
        ''srv'' ''t1''
      = [user_turn ''c'', assistant_turn (mcp_service 2) ''d'' 1]"
proof -
  have w: "0 < mcp_history_limit (mcp_service 2)" by (simp add: mcp_service_def)
  have r: "reachable empty_redis" by (simp add: empty_redis_def)
  have e: "get_cached_messages (mcp_service 2) empty_redis ''srv'' ''t1'' = []"
    by (simp add: get_cached_messages_def empty_redis_def)
  have n: "nat (mcp_history_limit (mcp_service 2)) = 2" by (simp add: mcp_service_def)
  from cache_window[OF w r, of "''srv''" "''t1''" "[]"
      "[[user_turn ''a'', assistant_turn (mcp_service 2) ''b'' 1],
        [user_turn ''c'', assistant_turn (mcp_service 2) ''d'' 1]]"]
  have "get_cached_messages (mcp_service 2)
        (foldl (\<lambda>r new. append_turns (mcp_service 2) r ''srv'' ''t1'' new) empty_redis
           [[user_turn ''a'', assistant_turn (mcp_service 2) ''b'' 1],
            [user_turn ''c'', assistant_turn (mcp_service 2) ''d'' 1]])
        ''srv'' ''t1''
      = [user_turn ''c'', assistant_turn (mcp_service 2) ''d'' 1]"
    by (simp add: e n)
  with w r show ?thesis by blast
qed

text \<open>
  Claim C2 (the code departs from it). The claim has the stored list hold exactly the \<open>W\<close>
  most recent entries; for the window \<open>W = 0\<close> that is no entry. \<open>_cache_messages\<close> cuts the
  list with \<open>messages[-self.history_limit:]\<close>, and \<open>messages[-0:]\<close> is the whole list: the
  write stores both entries it is given.
\<close>

theorem zero_window_write_keeps_everything:
  "mcp_history_limit (mcp_service 0) = 0
   \<and> kv (cache_messages (mcp_service 0) empty_redis ''srv'' ''t1'' [user_turn ''a'', user_turn ''b''])
        (get_redis_key ''srv'' ''t1'')
      = Some [user_turn ''a'', user_turn ''b'']"
  by (simp add: mcp_service_def cache_messages_def empty_redis_def tail_slice_def)

text \<open>
  \<open>_get_cached_messages\<close> takes no limit, its limit is the window. For a window \<open>W \<ge> 1\<close>
  it returns at most \<open>W\<close> entries; for every window the result is a tail, in stored order,
  of the list stored under the conversation's own key, and is empty when the key is absent
  or the cache cannot be reached; the keys of two conversations differ when their server
  identifiers contain no colon (the routes admit letters, digits, \<open>-\<close> and \<open>_\<close> only).
\<close>

lemma get_cached_messages_contract:
  "(0 < mcp_history_limit msvc \<longrightarrow>
        length (get_cached_messages msvc rds s t) \<le> nat (mcp_history_limit msvc))
   \<and> (case kv rds (get_redis_key s t) of
         Some stored \<Rightarrow> suffix (get_cached_messages msvc rds s t) stored
       | None \<Rightarrow> get_cached_messages msvc rds s t = [])
   \<and> (\<not> reachable rds \<longrightarrow> get_cached_messages msvc rds s t = [])
   \<and> (CHR '':'' \<notin> set s \<and> CHR '':'' \<notin> set s' \<and> get_redis_key s t = get_redis_key s' t' \<longrightarrow>
        s = s' \<and> t = t')"
proof -
  have 3: "length (get_cached_messages msvc rds s t) \<le> nat (mcp_history_limit msvc)"
    if "0 < mcp_history_limit msvc"
    using that by (simp add: get_cached_messages_def tail_slice_length split: option.splits)
  have 4: "(case kv rds (get_redis_key s t) of
         Some stored \<Rightarrow> suffix (get_cached_messages msvc rds s t) stored
       | None \<Rightarrow> get_cached_messages msvc rds s t = [])"
    by (simp add: get_cached_messages_def tail_slice_suffix split: option.splits)
  have 5: "get_cached_messages msvc rds s t = []" if "\<not> reachable rds"
    using that by (simp add: get_cached_messages_def)
  from 3 4 5 redis_key_injective[of s s' t t'] show ?thesis by blast
qed

text \<open>
  Claim C3 (the code departs from it). The claim has \<open>getRecent\<close> return at most \<open>limit\<close>
  messages for every key and every limit, and an empty list, not an error, where there is
  no history. The durable variant \<open>get_messages\<close> raises on every call: it opens its
  session with \<open>async with get_db_session()\<close>, which raises \<open>TypeError\<close>; so it does for a
  thread without messages and the limit 10. The cache variant cuts what it read with
  \<open>messages[-self.history_limit:]\<close>: for the window \<open>W = 0\<close> it returns all three entries
  stored.
\<close>

theorem get_recent_raises_or_ignores_window:
  "newest_first [] 1 10 = Inr []
   \<and> get_messages company_service newest_first [] 1 (Some 10) =
       Inl (TypeError (quoted ''async_generator''
             @ '' object does not support the asynchronous context manager protocol''))
   \<and> mcp_history_limit (mcp_service 0) = 0
   \<and> get_cached_messages (mcp_service 0) three_cached ''srv'' ''t1'' =
       [user_turn ''a'', user_turn ''b'', user_turn ''c'']"
  by (simp add: newest_first_def get_messages_def get_db_session_def mcp_service_def
      get_cached_messages_def three_cached_def tail_slice_def)

section \<open>A failure while the reply is streamed\<close>

lemma consume_no_done:
  "\<forall>ch \<in> set chunks. \<not> chunk_done ch \<Longrightarrow>
   consume chunks fin acc n =
     (deltas chunks, acc @ concat (deltas chunks), n + length (deltas chunks), fin)"
  by (induction chunks arbitrary: acc n) (auto simp: deltas_def)

lemma chat_valid:
  "messages \<noteq> [] \<Longrightarrow> \<forall>msg \<in> set messages. valid_role (cm_role msg) \<Longrightarrow>
   chat gw opts messages = Inr (gw opts messages)"
  by (auto simp: chat_def valid_role_def find_None_iff split: option.splits)

lemma stream_reply_failure:
  assumes "chat gw opts messages = Inr (chunks, Some e)"
    and "\<forall>ch \<in> set chunks. \<not> chunk_done ch"
  shows "stream_reply gw opts messages =
           (deltas chunks @ [''Error: '' @ str_exn e], ''Error: '' @ str_exn e, length (deltas chunks))"
  using assms by (simp add: stream_reply_def consume_no_done)

lemma memory_context_roles:
  "memory_context fmt v = Inr ctx \<Longrightarrow> \<forall>msg \<in> set ctx. valid_role (cm_role msg)"
  by (auto simp: memory_context_def valid_role_def split: if_splits sum.splits)

lemma mcp_turn_failure:
  assumes gw: "\<forall>opts msgs. gw opts msgs = (chunks, Some e)"
    and nd: "\<forall>ch \<in> set chunks. \<not> chunk_done ch"
    and tx: "strip text \<noteq> []"
    and mem: "retrieve_memory net mcp_base_url server_id thread_id text 5 auth_token = Inr snippets"
    and ctx: "memory_context fmt snippets = Inr memory_msgs"
    and roles: "\<forall>turn \<in> set (get_cached_messages msvc rds server_id thread_id).
                  valid_role (turn_role turn)"
  shows "mcp_yielded (send_mcp_message fmt msvc gw net rds server_id thread_id text mcp_base_url
            server_name auth_token) = deltas chunks @ [''Error: '' @ str_exn e]
         \<and> redis_after (send_mcp_message fmt msvc gw net rds server_id thread_id text mcp_base_url
            server_name auth_token) =
           append_turns msvc rds server_id thread_id
             [user_turn text,
              assistant_turn msvc (''Error: '' @ str_exn e) (length (deltas chunks))]"
proof -
  define messages where "messages =
      [\<lparr>cm_role = ''system'', cm_content = system_prompt_template msvc server_name\<rparr>]
      @ memory_msgs
      @ map (\<lambda>msg. \<lparr>cm_role = turn_role msg, cm_content = turn_content msg\<rparr>)
          (get_cached_messages msvc rds server_id thread_id)
      @ [\<lparr>cm_role = ''user'', cm_content = text\<rparr>]"
  have ne: "messages \<noteq> []" by (simp add: messages_def)
  have vr: "\<forall>msg \<in> set messages. valid_role (cm_role msg)"
    using roles memory_context_roles[OF ctx] by (auto simp: messages_def valid_role_def)
  have "chat gw (mcp_opts msvc) messages = Inr (chunks, Some e)"
    using chat_valid[OF ne vr] gw by simp
  then have sr: "stream_reply gw (mcp_opts msvc) messages =
      (deltas chunks @ [''Error: '' @ str_exn e], ''Error: '' @ str_exn e, length (deltas chunks))"
    using nd by (rule stream_reply_failure)
  show ?thesis
    using tx mem ctx sr[unfolded messages_def]
    by (simp add: send_mcp_message_def Let_def append_turns_def user_turn_def assistant_turn_def)
qed

text \<open>
  Claim C1, as amended: Ephemeral mode. The stream delivers the chunks \<open>chunks\<close>, none of
  them marked done, and then raises \<open>e\<close>. The caller receives the non-empty deltas of those
  chunks followed by the single delta \<open>Error: <message>\<close>. The user's entry and the
  assistant's entry are then appended to the cached conversation by read-modify-write; the
  assistant's entry has exactly the error text as its content (the accumulated prefix is
  replaced by it, not kept) and the number of deltas forwarded as its token count. With a
  reachable cache the key then holds the window's tail of what it held followed by the two
  entries; a cache that cannot be reached is left as it was, and the turn is not
  persisted. When the snippets retrieved have a length, no exception leaves the turn.
\<close>

theorem failed_generation_persists_error_text:
  assumes "\<forall>opts msgs. gw opts msgs = (chunks, Some e)"
    and "\<forall>ch \<in> set chunks. \<not> chunk_done ch"
    and "strip text \<noteq> []"
    and "retrieve_memory net mcp_base_url server_id conversation text 5 auth_token = Inr snippets"
    and "memory_context fmt snippets = Inr memory_msgs"
    and "\<forall>turn \<in> set (get_cached_messages msvc rds server_id conversation).
           valid_role (turn_role turn)"
  shows
    "mcp_yielded (send_mcp_message fmt msvc gw net rds server_id conversation text mcp_base_url
        server_name auth_token) = deltas chunks @ [''Error: '' @ str_exn e]
     \<and> redis_after (send_mcp_message fmt msvc gw net rds server_id conversation text mcp_base_url
          server_name auth_token) =
        append_turns msvc rds server_id conversation
          [user_turn text, assistant_turn msvc (''Error: '' @ str_exn e) (length (deltas chunks))]
     \<and> (reachable rds \<longrightarrow>
          kv (redis_after (send_mcp_message fmt msvc gw net rds server_id conversation text
                mcp_base_url server_name auth_token)) (get_redis_key server_id conversation) =
            Some (tail_slice (mcp_history_limit msvc)
                    ((case kv rds (get_redis_key server_id conversation) of
                        Some stored \<Rightarrow> tail_slice (mcp_history_limit msvc) stored
                      | None \<Rightarrow> [])
                     @ [user_turn text,
                        assistant_turn msvc (''Error: '' @ str_exn e) (length (deltas chunks))])))
     \<and> (\<not> reachable rds \<longrightarrow>
          redis_after (send_mcp_message fmt msvc gw net rds server_id conversation text mcp_base_url
            server_name auth_token) = rds)
     \<and> (has_len snippets \<longrightarrow>
          mcp_raised (send_mcp_message fmt msvc gw net rds server_id conversation text mcp_base_url
            server_name auth_token) = None)"
proof -
  note t = mcp_turn_failure[OF assms]
  have "kv (append_turns msvc rds server_id conversation new) (get_redis_key server_id conversation) =
      Some (tail_slice (mcp_history_limit msvc)
              ((case kv rds (get_redis_key server_id conversation) of
                  Some stored \<Rightarrow> tail_slice (mcp_history_limit msvc) stored
                | None \<Rightarrow> [])
               @ new))"
    if "reachable rds" for new
    using that by (simp add: append_turns_def cache_messages_stored get_cached_messages_def)
  moreover have "append_turns msvc rds server_id conversation new = rds"
    if "\<not> reachable rds" for new
    using that by (simp add: append_turns_def cache_messages_def)
  moreover have "mcp_raised (send_mcp_message fmt msvc gw net rds server_id conversation text
      mcp_base_url server_name auth_token) = None" if "has_len snippets"
    using that assms(3,4,5)
    by (simp add: send_mcp_message_def Let_def has_len_def split: prod.splits sum.splits)
  ultimately show ?thesis using t by simp
qed

theorem failed_generation_persists_error_text_witness:
  "strip ''hello'' \<noteq> []
   \<and> retrieve_memory not_implemented ''http://mcp.local:9000'' ''srv'' ''t1'' ''hello'' 5 None
       = Inr (JArr [])
   \<and> reachable empty_redis
   \<and> mcp_yielded (send_mcp_message no_fmt (mcp_service 8) timing_out not_implemented empty_redis
        ''srv'' ''t1'' ''hello'' ''http://mcp.local:9000'' ''web-01'' None)
       = [''Hi'', '' the'', ''Error: Stream timed out'']
   \<and> kv (redis_after (send_mcp_message no_fmt (mcp_service 8) timing_out not_implemented empty_redis
        ''srv'' ''t1'' ''hello'' ''http://mcp.local:9000'' ''web-01'' None)) (get_redis_key ''srv'' ''t1'')
       = Some [user_turn ''hello'', assistant_turn (mcp_service 8) ''Error: Stream timed out'' 2]
   \<and> has_len (JArr [])
   \<and> mcp_raised (send_mcp_message no_fmt (mcp_service 8) timing_out not_implemented empty_redis
        ''srv'' ''t1'' ''hello'' ''http://mcp.local:9000'' ''web-01'' None) = None
   \<and> \<not> reachable unreachable_redis
   \<and> redis_after (send_mcp_message no_fmt (mcp_service 8) timing_out not_implemented
        unreachable_redis ''srv'' ''t1'' ''hello'' ''http://mcp.local:9000'' ''web-01'' None)
       = unreachable_redis"
proof -
  let ?chunks = "[\<lparr>chunk_content = ''Hi'', chunk_done = False\<rparr>,
                  \<lparr>chunk_content = '' the'', chunk_done = False\<rparr>]"
  have gw: "\<forall>opts msgs. timing_out opts msgs = (?chunks, Some (StreamingError ''Stream timed out''))"
    by (simp add: timing_out_def)
  have nd: "\<forall>ch \<in> set ?chunks. \<not> chunk_done ch" by simp
  have tx: "strip ''hello'' \<noteq> []" by code_simp
  have mem: "retrieve_memory not_implemented ''http://mcp.local:9000'' ''srv'' ''t1'' ''hello'' 5 None
       = Inr (JArr [])"
    by (simp add: retrieve_memory_def not_implemented_def)
  have ctx: "memory_context no_fmt (JArr []) = Inr []" by (simp add: memory_context_def)
  have cached: "get_cached_messages (mcp_service 8) empty_redis ''srv'' ''t1'' = []"
    by (simp add: get_cached_messages_def empty_redis_def)
  have cached': "get_cached_messages (mcp_service 8) unreachable_redis ''srv'' ''t1'' = []"
    by (simp add: get_cached_messages_def unreachable_redis_def)
  have roles: "\<forall>turn \<in> set (get_cached_messages (mcp_service 8) empty_redis ''srv'' ''t1'').
      valid_role (turn_role turn)"
    by (simp add: cached)
  have roles': "\<forall>turn \<in> set (get_cached_messages (mcp_service 8) unreachable_redis ''srv'' ''t1'').
      valid_role (turn_role turn)"
    by (simp add: cached')
  have d: "deltas ?chunks = [''Hi'', '' the'']" by (simp add: deltas_def)
  have re: "reachable empty_redis" by (simp add: empty_redis_def)
  have un: "\<not> reachable unreachable_redis" by (simp add: unreachable_redis_def)
  have w: "mcp_history_limit (mcp_service 8) = 8" by (simp add: mcp_service_def)
  note t = failed_generation_persists_error_text[OF gw nd tx mem ctx roles,
      where server_name = "''web-01''"]
  note t' = failed_generation_persists_error_text[OF gw nd tx mem ctx roles',
      where server_name = "''web-01''"]
  from t have m: "mcp_yielded (send_mcp_message no_fmt (mcp_service 8) timing_out not_implemented
        empty_redis ''srv'' ''t1'' ''hello'' ''http://mcp.local:9000'' ''web-01'' None)
       = [''Hi'', '' the'', ''Error: Stream timed out'']"
    by (simp add: d)
  have stored: "kv empty_redis (get_redis_key ''srv'' ''t1'') = None"
    by (simp add: empty_redis_def)
  from t re have "kv (redis_after (send_mcp_message no_fmt (mcp_service 8) timing_out
        not_implemented empty_redis ''srv'' ''t1'' ''hello'' ''http://mcp.local:9000'' ''web-01'' None))
        (get_redis_key ''srv'' ''t1'')
       = Some (tail_slice (mcp_history_limit (mcp_service 8))
                 ((case kv empty_redis (get_redis_key ''srv'' ''t1'') of
                     Some stored \<Rightarrow> tail_slice (mcp_history_limit (mcp_service 8)) stored
                   | None \<Rightarrow> [])
                  @ [user_turn ''hello'',
                     assistant_turn (mcp_service 8) (''Error: '' @ str_exn (StreamingError ''Stream timed out''))
                       (length (deltas ?chunks))]))"
    by blast
  then have k: "kv (redis_after (send_mcp_message no_fmt (mcp_service 8) timing_out
        not_implemented empty_redis ''srv'' ''t1'' ''hello'' ''http://mcp.local:9000'' ''web-01'' None))
        (get_redis_key ''srv'' ''t1'')
       = Some [user_turn ''hello'', assistant_turn (mcp_service 8) ''Error: Stream timed out'' 2]"
    by (simp add: d stored w tail_slice_def numeral_2_eq_2)
  have hl: "has_len (JArr [])" by (simp add: has_len_def py_len_def)
  from t hl have nr: "mcp_raised (send_mcp_message no_fmt (mcp_service 8) timing_out
        not_implemented empty_redis ''srv'' ''t1'' ''hello'' ''http://mcp.local:9000'' ''web-01'' None)
       = None"
    by blast
  from t' un have u: "redis_after (send_mcp_message no_fmt (mcp_service 8) timing_out not_implemented
        unreachable_redis ''srv'' ''t1'' ''hello'' ''http://mcp.local:9000'' ''web-01'' None)
       = unreachable_redis"
    by blast
  from tx mem re m k hl nr un u show ?thesis by blast
qed

text \<open>
  Claim C1 as stated fails, in Ephemeral mode, in two ways. When the cache cannot be
  reached, the error delta is forwarded but nothing is persisted: here with the stream as
  the service's own client hands it out, which raises at its first read, so that the
  forwarded prefix is empty. And when a stream delivers \<open>Hi\<close> and \<open> the\<close> and then times
  out, the caller receives both deltas and the error delta, but the assistant entry that
  is cached holds the error text alone, not the forwarded prefix followed by the error
  text.
\<close>

theorem failed_generation_drops_prefix:
  "mcp_yielded (send_mcp_message no_fmt (mcp_service 8) closed_client not_implemented
      unreachable_redis ''srv'' ''t1'' ''hello'' ''http://mcp.local:9000'' ''web-01'' None)
     = [''Error: Cannot send a request, as the client has been closed.'']
   \<and> kv (redis_after (send_mcp_message no_fmt (mcp_service 8) closed_client not_implemented
        unreachable_redis ''srv'' ''t1'' ''hello'' ''http://mcp.local:9000'' ''web-01'' None))
        (get_redis_key ''srv'' ''t1'')
     = None
   \<and> mcp_yielded (send_mcp_message no_fmt (mcp_service 8) timing_out not_implemented empty_redis
        ''srv'' ''t1'' ''hello'' ''http://mcp.local:9000'' ''web-01'' None)
     = [''Hi'', '' the'', ''Error: Stream timed out'']
   \<and> map_option (map turn_content)
        (kv (redis_after (send_mcp_message no_fmt (mcp_service 8) timing_out not_implemented
               empty_redis ''srv'' ''t1'' ''hello'' ''http://mcp.local:9000'' ''web-01'' None))
           (get_redis_key ''srv'' ''t1''))
     = Some [''hello'', ''Error: Stream timed out'']
   \<and> ''Error: Stream timed out'' \<noteq> ''Hi the'' @ ''Error: Stream timed out''"
proof -
  have tx: "strip ''hello'' \<noteq> []" by code_simp
  have mem: "retrieve_memory not_implemented ''http://mcp.local:9000'' ''srv'' ''t1'' ''hello'' 5 None
       = Inr (JArr [])"
    by (simp add: retrieve_memory_def not_implemented_def)
  have ctx: "memory_context no_fmt (JArr []) = Inr []" by (simp add: memory_context_def)
  have cached: "get_cached_messages (mcp_service 8) empty_redis ''srv'' ''t1'' = []"
    by (simp add: get_cached_messages_def empty_redis_def)
  have cached': "get_cached_messages (mcp_service 8) unreachable_redis ''srv'' ''t1'' = []"
    by (simp add: get_cached_messages_def unreachable_redis_def)
  have w: "mcp_history_limit (mcp_service 8) = 8" by (simp add: mcp_service_def)
  have s1: "stream_reply timing_out (mcp_opts (mcp_service 8))
      [\<lparr>cm_role = ''system'', cm_content = system_prompt_template (mcp_service 8) ''web-01''\<rparr>,
       \<lparr>cm_role = ''user'', cm_content = ''hello''\<rparr>] =
      ([''Hi'', '' the'', ''Error: Stream timed out''], ''Error: Stream timed out'', 2)"
    by (simp add: stream_reply_def chat_def timing_out_def)
  have s2: "stream_reply closed_client (mcp_opts (mcp_service 8))
      [\<lparr>cm_role = ''system'', cm_content = system_prompt_template (mcp_service 8) ''web-01''\<rparr>,
       \<lparr>cm_role = ''user'', cm_content = ''hello''\<rparr>] =
      ([''Error: Cannot send a request, as the client has been closed.''],
       ''Error: Cannot send a request, as the client has been closed.'', 0)"
    by (simp add: stream_reply_def chat_def closed_client_def)
  have a: "send_mcp_message no_fmt (mcp_service 8) timing_out not_implemented empty_redis
      ''srv'' ''t1'' ''hello'' ''http://mcp.local:9000'' ''web-01'' None =
      \<lparr>mcp_yielded = [''Hi'', '' the'', ''Error: Stream timed out''],
       redis_after = cache_messages (mcp_service 8) empty_redis ''srv'' ''t1''
          [user_turn ''hello'', assistant_turn (mcp_service 8) ''Error: Stream timed out'' 2],
       mcp_raised = None\<rparr>"
    using tx
    by (simp add: send_mcp_message_def mem ctx cached s1 Let_def py_len_def user_turn_def
        assistant_turn_def)
  have b: "send_mcp_message no_fmt (mcp_service 8) closed_client not_implemented unreachable_redis
      ''srv'' ''t1'' ''hello'' ''http://mcp.local:9000'' ''web-01'' None =
      \<lparr>mcp_yielded = [''Error: Cannot send a request, as the client has been closed.''],
       redis_after = cache_messages (mcp_service 8) unreachable_redis ''srv'' ''t1''
          [user_turn ''hello'',
           assistant_turn (mcp_service 8)
             ''Error: Cannot send a request, as the client has been closed.'' 0],
       mcp_raised = None\<rparr>"
    using tx
    by (simp add: send_mcp_message_def mem ctx cached' s2 Let_def py_len_def user_turn_def
        assistant_turn_def)
  have ka: "kv (redis_after (send_mcp_message no_fmt (mcp_service 8) timing_out not_implemented
               empty_redis ''srv'' ''t1'' ''hello'' ''http://mcp.local:9000'' ''web-01'' None))
           (get_redis_key ''srv'' ''t1'')
      = Some [user_turn ''hello'', assistant_turn (mcp_service 8) ''Error: Stream timed out'' 2]"
    unfolding a by (simp add: cache_messages_def empty_redis_def w tail_slice_def)
  have kb: "kv (redis_after (send_mcp_message no_fmt (mcp_service 8) closed_client not_implemented
        unreachable_redis ''srv'' ''t1'' ''hello'' ''http://mcp.local:9000'' ''web-01'' None))
        (get_redis_key ''srv'' ''t1'') = None"
    unfolding b by (simp add: cache_messages_def unreachable_redis_def)
  have ya: "mcp_yielded (send_mcp_message no_fmt (mcp_service 8) timing_out not_implemented empty_redis
      ''srv'' ''t1'' ''hello'' ''http://mcp.local:9000'' ''web-01'' None)
     = [''Hi'', '' the'', ''Error: Stream timed out'']"
    unfolding a by simp
  have yb: "mcp_yielded (send_mcp_message no_fmt (mcp_service 8) closed_client not_implemented
        unreachable_redis ''srv'' ''t1'' ''hello'' ''http://mcp.local:9000'' ''web-01'' None)
     = [''Error: Cannot send a request, as the client has been closed.'']"
    unfolding b by simp
  show ?thesis
    unfolding ka kb ya yb by (simp add: user_turn_def assistant_turn_def)
qed

section \<open>Model Gateway: the error taxonomy of the mapping functions\<close>

lemma handle_error_response_mapped:
  "error_message r = Some msg \<Longrightarrow>
   handle_error_response fmt r = Inr (mapped_error (status_code r) msg)"
  by (auto simp: error_message_def handle_error_response_def mapped_error_def py_get_def
      format_value_def split: sum.splits json.splits if_splits)

lemma mapped_error_not_transport_failure:
  "\<not> is_TimeoutException (mapped_error code msg) \<and> \<not> is_ConnectError (mapped_error code msg)"
  by (simp add: mapped_error_def)

text \<open>
  The mapping functions by themselves follow the taxonomy. An error response whose message
  is a string is mapped by \<open>_handle_error_response\<close> according to its status: 404 with
  \<open>model\<close> in the lower-cased message to \<open>ModelError\<close>, 404 otherwise and 400 to
  \<open>ValidationError\<close>, 5xx (and any other status) to \<open>TransportError\<close>;
  \<open>_handle_response\<close> maps a 200 response whose body is not JSON to \<open>ValidationError\<close>;
  and a streaming request raises the mapped exception unchanged.
\<close>

theorem error_taxonomy_of_mapping:
  "(error_message r = Some msg \<longrightarrow>
      handle_error_response fmt r = Inr (mapped_error (status_code r) msg))
   \<and> (status_code r = 200 \<and> decoded r = Inl m \<longrightarrow>
      handle_response fmt r = Inl (ValidationError (''Invalid JSON response: '' @ m)))
   \<and> (status_code r \<noteq> 200 \<and> error_message r = Some msg \<longrightarrow>
      stream_request fmt loads (StreamResponse r fragments fin) =
        ([], Some (mapped_error (status_code r) msg)))"
  using handle_error_response_mapped[of r msg fmt] mapped_error_not_transport_failure[of "status_code r" msg]
  by (auto simp: handle_response_def stream_request_def stream_request_full_def stream_exn_def
      raised_def)

theorem error_taxonomy_of_mapping_witness:
  "error_message missing_model_response = Some ''model llama9 not found''
   \<and> status_code missing_model_response \<noteq> 200
   \<and> handle_error_response no_fmt missing_model_response =
       Inr (ModelError ''Model not found: model llama9 not found'')
   \<and> stream_request no_fmt no_loads (StreamResponse missing_model_response [] Closed) =
       ([], Some (ModelError ''Model not found: model llama9 not found''))
   \<and> status_code ok_response = 200 \<and> decoded ok_response = Inl ''Expecting value''
   \<and> handle_response no_fmt ok_response =
       Inl (ValidationError ''Invalid JSON response: Expecting value'')"
proof -
  have e: "error_message missing_model_response = Some ''model llama9 not found''"
    by (simp add: error_message_def missing_model_response_def dict_get_def)
  have s: "status_code missing_model_response \<noteq> 200" "status_code missing_model_response = 404"
    by (simp_all add: missing_model_response_def)
  have m: "mapped_error 404 ''model llama9 not found'' =
      ModelError ''Model not found: model llama9 not found''"
    by code_simp
  have o: "status_code ok_response = 200" "decoded ok_response = Inl ''Expecting value''"
    by (simp_all add: ok_response_def)
  note t1 = error_taxonomy_of_mapping[where r = missing_model_response
      and msg = "''model llama9 not found''" and fmt = no_fmt and loads = no_loads
      and fragments = "[]" and fin = Closed]
  note t2 = error_taxonomy_of_mapping[where r = ok_response and m = "''Expecting value''"
      and fmt = no_fmt]
  from t1 e s m have a: "handle_error_response no_fmt missing_model_response =
       Inr (ModelError ''Model not found: model llama9 not found'')"
    and b: "stream_request no_fmt no_loads (StreamResponse missing_model_response [] Closed) =
       ([], Some (ModelError ''Model not found: model llama9 not found''))"
    by simp_all
  from t2 o have c: "handle_response no_fmt ok_response =
       Inl (ValidationError ''Invalid JSON response: Expecting value'')"
    by simp
  from e s(1) a b o c show ?thesis by simp
qed

end

